theory Spec2Isabelle
  imports Main "HOL-Library.Word"
begin

unbundle bit_operations_syntax

section \<open>The minute-close message (EOM) of common/messages/eom.go\<close>

text \<open>
  A shallow embedding of \<^verbatim>\<open>src/common/messages/eom.go\<close>. Go values become HOL values:
  a byte is an 8-bit word, \<^verbatim>\<open>uint32\<close> a 32-bit word, a byte slice a list of bytes (the
  nil slice and the empty slice are both the empty list; the capacity of a slice is not
  modelled, no result of this file depends on it). An interface value that may be nil is
  an \<open>option\<close>. A Go function that returns \<^verbatim>\<open>(value, error)\<close> and may panic is a function
  into \<open>result\<close>; a method that also changes its receiver or the node returns an
  \<open>outcome\<close>, which carries the changed state in both the normal and the panicking case.

  The file imports types whose code is not part of it: the timestamp, the hash and the
  signature with their binary codecs, the hash function, the message type constant, and
  the node state interface. They are parameters of the model (the records \<open>codec\<close> and
  \<open>facade\<close> below): every theorem holds for all of them, or states what it needs of them.
\<close>

subsection \<open>Panics, errors and results\<close>

type_synonym byte = "8 word"

datatype panic =
    Index_out_of_range                  \<comment> \<open>runtime error of \<^verbatim>\<open>xs[i]\<close>\<close>
  | Slice_bounds_out_of_range           \<comment> \<open>runtime error of \<^verbatim>\<open>xs[i:j]\<close>\<close>
  | Nil_dereference                     \<comment> \<open>method call on a nil interface value\<close>
  | Error_in_GetHash error              \<comment> \<open>\<^verbatim>\<open>panic("Error in EOM.GetHash(): " + err)\<close>\<close>
  | Failed_to_build_state error         \<comment> \<open>\<^verbatim>\<open>panic("Failed to build state in EOM: " + err)\<close>\<close>
  | Not_implemented_yet                 \<comment> \<open>\<^verbatim>\<open>panic("Not implemented yet")\<close>\<close>
  | Not_implemented_yet_Network_Number int
  | Foreign_panic string                \<comment> \<open>a panic raised inside imported code\<close>
and error =
    Minute_number_is_out_of_range       \<comment> \<open>\<^verbatim>\<open>fmt.Errorf("Minute number is out of range")\<close>\<close>
  | Error_unmarshalling panic           \<comment> \<open>\<^verbatim>\<open>fmt.Errorf("Error unmarshalling: %v", r)\<close>\<close>
  | Foreign_error string                \<comment> \<open>an error returned by imported code\<close>

datatype 'a result = Panic panic | Err error | Ok 'a

datatype ('r, 's) outcome = Panics panic 's | Returns 'r 's

subsection \<open>The message\<close>

record ('ts, 'h, 's) EOM =
  Timestamp :: 'ts
  Minute :: byte
  DirectoryBlockHeight :: "32 word"
  IdentityChainID :: "'h option"
  Signature :: "'s option"
  hash :: "'h option"                   \<comment> \<open>not marshalled\<close>

text \<open>The imported codecs. \<open>Timestamp_UnmarshalBinaryData\<close> works on the message's own
  timestamp field in place, so it takes the old value and returns the new one whatever
  happens; the hash and the signature are decoded into fresh objects.\<close>

record ('ts, 'h, 's) codec =
  EOM_MSG :: int
  Timestamp_zero :: 'ts
  Timestamp_MarshalBinary :: "'ts \<Rightarrow> byte list result"
  Timestamp_UnmarshalBinaryData :: "'ts \<Rightarrow> byte list \<Rightarrow> 'ts \<times> byte list result"
  Hash_MarshalBinary :: "'h \<Rightarrow> byte list result"
  Hash_UnmarshalBinaryData :: "byte list \<Rightarrow> ('h \<times> byte list) result"
  Signature_MarshalBinary :: "'s \<Rightarrow> byte list result"
  Signature_UnmarshalBinaryData :: "byte list \<Rightarrow> ('s \<times> byte list) result"
  Sha :: "byte list \<Rightarrow> 'h"

text \<open>\<^verbatim>\<open>new(EOM)\<close>: every field has its zero value.\<close>

definition new_EOM :: "('ts, 'h, 's) codec \<Rightarrow> ('ts, 'h, 's) EOM" where
  "new_EOM c = \<lparr>Timestamp = Timestamp_zero c, Minute = 0, DirectoryBlockHeight = 0,
     IdentityChainID = None, Signature = None, hash = None\<rparr>"

subsection \<open>encoding/binary, big endian\<close>

text \<open>\<^verbatim>\<open>binary.Write(&buf, binary.BigEndian, v)\<close> for a \<^verbatim>\<open>uint32\<close>, and
  \<^verbatim>\<open>binary.BigEndian.Uint32(b)\<close>, which reads \<^verbatim>\<open>b[0..3]\<close> and panics on a shorter slice
  (\<open>None\<close>).\<close>

definition PutUint32 :: "32 word \<Rightarrow> byte list" where
  "PutUint32 v = [ucast (drop_bit 24 v), ucast (drop_bit 16 v), ucast (drop_bit 8 v), ucast v]"

fun Uint32 :: "byte list \<Rightarrow> 32 word option" where
  "Uint32 (b0 # b1 # b2 # b3 # _) =
     Some (ucast b3 OR push_bit 8 (ucast b2) OR push_bit 16 (ucast b1) OR push_bit 24 (ucast b0))"
| "Uint32 _ = None"

subsection \<open>Decoding\<close>

text \<open>The named results of \<^verbatim>\<open>UnmarshalBinaryData\<close> together with its receiver: what the
  deferred function sees when it runs, and what the caller gets.\<close>

record ('ts, 'h, 's) frame =
  receiver :: "('ts, 'h, 's) EOM"
  newData :: "byte list"
  err :: "error option"

text \<open>The body of \<^verbatim>\<open>UnmarshalBinaryData\<close>, statement by statement. Each \<open>Panics\<close> carries
  the frame at the moment of the panic: a tuple assignment evaluates its right-hand side
  first, so a panic there leaves both targets as they were.\<close>

definition UnmarshalBinaryData_body ::
  "('ts, 'h, 's) codec \<Rightarrow> ('ts, 'h, 's) EOM \<Rightarrow> byte list \<Rightarrow> (unit, ('ts, 'h, 's) frame) outcome" where
  "UnmarshalBinaryData_body c m data =
    (if length data < 1 then
       Panics Slice_bounds_out_of_range \<lparr>receiver = m, newData = [], err = None\<rparr>
     else
       let nd0 = drop 1 data in
       (case Timestamp_UnmarshalBinaryData c (Timestamp m) nd0 of
         (ts, Panic p) \<Rightarrow>
           Panics p \<lparr>receiver = m\<lparr>Timestamp := ts\<rparr>, newData = nd0, err = None\<rparr>
       | (ts, Err e) \<Rightarrow>
           Returns () \<lparr>receiver = m\<lparr>Timestamp := ts\<rparr>, newData = [], err = Some e\<rparr>
       | (ts, Ok nd1) \<Rightarrow>
           let m1 = m\<lparr>Timestamp := ts\<rparr> in
           (case nd1 of
             [] \<Rightarrow> Panics Index_out_of_range \<lparr>receiver = m1, newData = nd1, err = None\<rparr>
           | b # nd2 \<Rightarrow>
               let m2 = m1\<lparr>Minute := b\<rparr> in
               if Minute m2 < 0 \<or> Minute m2 \<ge> 10 then
                 Returns () \<lparr>receiver = m2, newData = [],
                   err = Some Minute_number_is_out_of_range\<rparr>
               else if length nd2 < 4 then
                 Panics Slice_bounds_out_of_range \<lparr>receiver = m2, newData = nd2, err = None\<rparr>
               else
                 (case Uint32 (take 4 nd2) of
                   None \<Rightarrow>
                     Panics Index_out_of_range \<lparr>receiver = m2, newData = nd2, err = None\<rparr>
                 | Some v \<Rightarrow>
                     let m3 = m2\<lparr>DirectoryBlockHeight := v\<rparr>; nd3 = drop 4 nd2 in
                     (case Hash_UnmarshalBinaryData c nd3 of
                       Panic p \<Rightarrow> Panics p \<lparr>receiver = m3, newData = nd3, err = None\<rparr>
                     | Err e \<Rightarrow> Returns () \<lparr>receiver = m3, newData = [], err = Some e\<rparr>
                     | Ok (h, nd4) \<Rightarrow>
                         let m4 = m3\<lparr>IdentityChainID := Some h\<rparr> in
                         if length nd4 > 0 then
                           (case Signature_UnmarshalBinaryData c nd4 of
                             Panic p \<Rightarrow> Panics p \<lparr>receiver = m4, newData = nd4, err = None\<rparr>
                           | Err e \<Rightarrow> Returns () \<lparr>receiver = m4, newData = [], err = Some e\<rparr>
                           | Ok (sig, nd5) \<Rightarrow>
                               Returns () \<lparr>receiver = m4\<lparr>Signature := Some sig\<rparr>,
                                 newData = data, err = None\<rparr>)
                         else
                           Returns () \<lparr>receiver = m4, newData = data, err = None\<rparr>)))))"

text \<open>The deferred function: a panic of the body is recovered and becomes the returned
  error; the other named results keep the values they had when the panic was raised.\<close>

definition UnmarshalBinaryData ::
  "('ts, 'h, 's) codec \<Rightarrow> ('ts, 'h, 's) EOM \<Rightarrow> byte list \<Rightarrow> (unit, ('ts, 'h, 's) frame) outcome" where
  "UnmarshalBinaryData c m data =
    (case UnmarshalBinaryData_body c m data of
      Panics r fr \<Rightarrow> Returns () (fr\<lparr>err := Some (Error_unmarshalling r)\<rparr>)
    | Returns u fr \<Rightarrow> Returns u fr)"

definition UnmarshalBinary ::
  "('ts, 'h, 's) codec \<Rightarrow> ('ts, 'h, 's) EOM \<Rightarrow> byte list \<Rightarrow> (error option, ('ts, 'h, 's) EOM) outcome" where
  "UnmarshalBinary c m data =
    (case UnmarshalBinaryData c m data of
      Panics r fr \<Rightarrow> Panics r (receiver fr)
    | Returns u fr \<Rightarrow> Returns (err fr) (receiver fr))"

subsection \<open>Encoding and hashing\<close>

definition Type :: "('ts, 'h, 's) codec \<Rightarrow> ('ts, 'h, 's) EOM \<Rightarrow> int" where
  "Type c m = EOM_MSG c"

definition GetTimestamp :: "('ts, 'h, 's) EOM \<Rightarrow> 'ts" where
  "GetTimestamp m = Timestamp m"

definition GetSignature :: "('ts, 'h, 's) EOM \<Rightarrow> 's option" where
  "GetSignature m = Signature m"

text \<open>\<^verbatim>\<open>byte(m.Type())\<close> keeps the low eight bits of the constant. A nil
  \<^verbatim>\<open>IdentityChainID\<close> makes the method call on it panic.\<close>

definition MarshalForSignature ::
  "('ts, 'h, 's) codec \<Rightarrow> ('ts, 'h, 's) EOM \<Rightarrow> byte list result" where
  "MarshalForSignature c m =
    (let buf = [word_of_int (Type c m)] in
     case Timestamp_MarshalBinary c (Timestamp m) of
       Panic r \<Rightarrow> Panic r
     | Err e \<Rightarrow> Err e
     | Ok d \<Rightarrow>
         let buf = buf @ d;
             buf = buf @ [Minute m];
             buf = buf @ PutUint32 (DirectoryBlockHeight m)
         in (case IdentityChainID m of
               None \<Rightarrow> Panic Nil_dereference
             | Some h \<Rightarrow>
                 (case Hash_MarshalBinary c h of
                    Panic r \<Rightarrow> Panic r
                  | Err e \<Rightarrow> Err e
                  | Ok hb \<Rightarrow> Ok (buf @ hb))))"

definition MarshalBinary ::
  "('ts, 'h, 's) codec \<Rightarrow> ('ts, 'h, 's) EOM \<Rightarrow> byte list result" where
  "MarshalBinary c m =
    (case MarshalForSignature c m of
       Panic r \<Rightarrow> Panic r
     | Err e \<Rightarrow> Err e
     | Ok resp \<Rightarrow>
         (case GetSignature m of
            None \<Rightarrow> Ok resp
          | Some sig \<Rightarrow>
              (case Signature_MarshalBinary c sig of
                 Panic r \<Rightarrow> Panic r
               | Err e \<Rightarrow> Err e
               | Ok sigBytes \<Rightarrow> Ok (resp @ sigBytes))))"

text \<open>\<^verbatim>\<open>GetHash\<close> computes the hash on first use and caches it in the message.\<close>

definition GetHash ::
  "('ts, 'h, 's) codec \<Rightarrow> ('ts, 'h, 's) EOM \<Rightarrow> ('h, ('ts, 'h, 's) EOM) outcome" where
  "GetHash c m =
    (case hash m of
       Some h \<Rightarrow> Returns h m
     | None \<Rightarrow>
         (case MarshalForSignature c m of
            Panic r \<Rightarrow> Panics r m
          | Err e \<Rightarrow> Panics (Error_in_GetHash e) m
          | Ok data \<Rightarrow> Returns (Sha c data) (m\<lparr>hash := Some (Sha c data)\<rparr>)))"

subsection \<open>A small codec for examples\<close>

text \<open>Timestamps, hashes and signatures of a fixed width each (2, 4 and 3 bytes), written
  as they are. It stands in for the imported codecs where a theorem is run on a concrete
  input.\<close>

definition fixed_MarshalBinary :: "nat \<Rightarrow> byte list \<Rightarrow> byte list result" where
  "fixed_MarshalBinary n x =
    (if length x = n then Ok x else Err (Foreign_error ''wrong length''))"

definition fixed_UnmarshalBinaryData :: "nat \<Rightarrow> byte list \<Rightarrow> (byte list \<times> byte list) result" where
  "fixed_UnmarshalBinaryData n data =
    (if length data < n then Err (Foreign_error ''not enough data'')
     else Ok (take n data, drop n data))"

definition example_codec :: "(byte list, byte list, byte list) codec" where
  "example_codec =
    \<lparr>EOM_MSG = 0,
     Timestamp_zero = [0, 0],
     Timestamp_MarshalBinary = fixed_MarshalBinary 2,
     Timestamp_UnmarshalBinaryData = (\<lambda>old data.
       case fixed_UnmarshalBinaryData 2 data of
         Ok (ts, rest) \<Rightarrow> (ts, Ok rest)
       | Err e \<Rightarrow> (old, Err e)
       | Panic r \<Rightarrow> (old, Panic r)),
     Hash_MarshalBinary = fixed_MarshalBinary 4,
     Hash_UnmarshalBinaryData = fixed_UnmarshalBinaryData 4,
     Signature_MarshalBinary = fixed_MarshalBinary 3,
     Signature_UnmarshalBinaryData = fixed_UnmarshalBinaryData 3,
     Sha = (\<lambda>data. take 4 (data @ [0, 0, 0, 0]))\<rparr>"

subsection \<open>What the round trip needs of the imported codecs\<close>

text \<open>The codecs of the timestamp, the hash and the signature are not part of this file.
  \<open>codec_roundtrips_on c m\<close> says that each of them decodes what it encoded for the
  field values of \<open>m\<close>, whatever bytes follow, and that an encoded signature is not empty
  (the decoder looks for a signature only when bytes remain).\<close>

definition codec_roundtrips_on :: "('ts, 'h, 's) codec \<Rightarrow> ('ts, 'h, 's) EOM \<Rightarrow> bool" where
  "codec_roundtrips_on c m \<longleftrightarrow>
    (\<forall>tb. Timestamp_MarshalBinary c (Timestamp m) = Ok tb \<longrightarrow>
       (\<forall>old rest. Timestamp_UnmarshalBinaryData c old (tb @ rest) = (Timestamp m, Ok rest))) \<and>
    (\<forall>h hb. IdentityChainID m = Some h \<and> Hash_MarshalBinary c h = Ok hb \<longrightarrow>
       (\<forall>rest. Hash_UnmarshalBinaryData c (hb @ rest) = Ok (h, rest))) \<and>
    (\<forall>sig sb. Signature m = Some sig \<and> Signature_MarshalBinary c sig = Ok sb \<longrightarrow>
       sb \<noteq> [] \<and> (\<forall>rest. Signature_UnmarshalBinaryData c (sb @ rest) = Ok (sig, rest)))"

section \<open>Execution against the node state\<close>

subsection \<open>The node state interface\<close>

text \<open>The messages that travel on the queues and sit in the process list are values of the
  interface \<^verbatim>\<open>IMsg\<close>: a minute-close message, a directory-block-signature message, or a
  message of a type declared elsewhere.\<close>

datatype ('e, 'd, 'o) IMsg =
    EOM_msg 'e
  | DirectoryBlockSignature_msg 'd
  | Other_msg 'o

text \<open>The directory-block-signature message. This file assigns its field
  \<^verbatim>\<open>DirectoryBlockKeyMR\<close>; its other fields, the signature among them, are declared
  outside the file and are the record's extension.\<close>

record 'h DirectoryBlockSignature =
  DirectoryBlockKeyMR :: "'h option"

text \<open>A slice of messages is a header, the array it points to and its length; the elements
  of the array live in the memory of the node, where a collaborator may overwrite them.
  A slot of the process list is such a slice.\<close>

record 'a slice =
  slice_array :: 'a
  slice_len :: nat

text \<open>What the methods of this file call on \<^verbatim>\<open>interfaces.IState\<close>, on the messages of the
  process list and on the directory-block-signature message, and the constants they
  compare with. The code of all of them is outside the file. A collaborator acts on the
  node state \<open>'st\<close> and is taken to return (a panic inside one is not modelled);
  \<open>msg_FollowerExecute\<close> is the dynamic dispatch \<^verbatim>\<open>msg.FollowerExecute(state)\<close>, which
  also returns an error or nil. \<open>GetProcessList\<close> gives the slots the process list holds
  when it is called, and \<open>load st a i\<close> is the message that element \<open>i\<close> of the array \<open>a\<close>
  holds in the node state \<open>st\<close>. \<open>GetPreviousDirectoryBlock\<close> returns an interface value,
  which may be nil.\<close>

record ('st, 'h, 'd, 'msg, 'a, 'b) facade =
  NETWORK_MAIN :: int
  NETWORK_TEST :: int
  NETWORK_LOCAL :: int
  SERVER_MODE :: int
  GetProcessList :: "'st \<Rightarrow> 'a slice list"
  load :: "'st \<Rightarrow> 'a \<Rightarrow> nat \<Rightarrow> 'msg"
  msg_FollowerExecute :: "'msg \<Rightarrow> 'st \<Rightarrow> 'st \<times> error option"
  EndOfPeriod :: "int \<Rightarrow> 'st \<Rightarrow> 'st"
  GetNetworkNumber :: "'st \<Rightarrow> int"
  ProcessEndOfBlock :: "'st \<Rightarrow> 'st"
  GetServerState :: "'st \<Rightarrow> int"
  GetPreviousDirectoryBlock :: "'st \<Rightarrow> 'b option"
  GetKeyMR :: "'b \<Rightarrow> 'h option"
  NewDirectoryBlockSignature :: 'd
  DirectoryBlockSignature_Sign :: "'st \<Rightarrow> 'd \<Rightarrow> 'd \<times> error option"

text \<open>The calls a method makes on its collaborators that act on the node or on a message,
  in the order it makes them (a read of the node state is not recorded).\<close>

datatype 'msg call =
    Call_FollowerExecute 'msg
  | Call_EndOfPeriod int
  | Call_ProcessEndOfBlock
  | Call_Sign

text \<open>The world a method runs in: the node state, the three channels it sends on (a send
  appends to the channel's buffer; a full channel blocks the sender, which is not
  modelled), and the record of the calls made so far.\<close>

record ('st, 'msg) world =
  node :: 'st
  NetworkOutMsgQueue :: "'msg list"
  InMsgQueue :: "'msg list"
  LeaderInMsgQueue :: "'msg list"
  calls :: "'msg call list"

text \<open>The state an outcome ends in, whether it returned or panicked.\<close>

fun state_of :: "('r, 'w) outcome \<Rightarrow> 'w" where
  "state_of (Panics r w) = w"
| "state_of (Returns x w) = w"

subsection \<open>Role dispatch\<close>

definition Process :: "('ts, 'h, 's) EOM \<Rightarrow> 'st \<Rightarrow> 'st" where
  "Process e st = st"

definition Validate :: "('ts, 'h, 's) EOM \<Rightarrow> 'st \<Rightarrow> int" where
  "Validate m st = 1"

definition Leader :: "('ts, 'h, 's) EOM \<Rightarrow> 'st \<Rightarrow> bool" where
  "Leader m st = False"

definition Follower :: "('ts, 'h, 's) EOM \<Rightarrow> 'st \<Rightarrow> bool" where
  "Follower m st = True"

subsection \<open>The leader's step\<close>

text \<open>\<^verbatim>\<open>state.GetPreviousDirectoryBlock().GetKeyMR()\<close> calls a method on the interface value
  the first call returns: on nil it panics, before anything is signed or sent.
  \<^verbatim>\<open>DBM.Sign(state)\<close> is called as a statement: the error it returns is dropped.\<close>

definition LeaderExecute ::
  "('st, 'h, ('h, 'z) DirectoryBlockSignature_scheme,
      ('e, ('h, 'z) DirectoryBlockSignature_scheme, 'o) IMsg, 'a, 'b) facade \<Rightarrow>
   ('ts, 'h, 's) EOM \<Rightarrow>
   ('st, ('e, ('h, 'z) DirectoryBlockSignature_scheme, 'o) IMsg) world \<Rightarrow>
   (error option, ('st, ('e, ('h, 'z) DirectoryBlockSignature_scheme, 'o) IMsg) world) outcome" where
  "LeaderExecute f m w =
    (let DBM = NewDirectoryBlockSignature f in
     case GetPreviousDirectoryBlock f (node w) of
       None \<Rightarrow> Panics Nil_dereference w
     | Some block \<Rightarrow>
         let DBM = DBM\<lparr>DirectoryBlockKeyMR := GetKeyMR f block\<rparr>;
             DBM = fst (DirectoryBlockSignature_Sign f (node w) DBM);
             w = w\<lparr>calls := calls w @ [Call_Sign]\<rparr>;
             w = w\<lparr>NetworkOutMsgQueue :=
                   NetworkOutMsgQueue w @ [DirectoryBlockSignature_msg DBM]\<rparr>;
             w = w\<lparr>InMsgQueue := InMsgQueue w @ [DirectoryBlockSignature_msg DBM]\<rparr>
         in Returns None w)"

subsection \<open>The follower's step\<close>

text \<open>The loop over slot 0 of the process list. The range expression is evaluated once,
  before the first iteration: the loop keeps the slice header, so it makes as many
  iterations as the slot was long then. Each iteration reads its element from the array
  when it gets there, in the node state the executions before it left, so it sees an
  element that one of them overwrote. \<open>FollowerExecute_range_from f s i k\<close> makes the \<open>k\<close>
  iterations from index \<open>i\<close> on; the first error panics and ends the loop.\<close>

fun FollowerExecute_range_from ::
  "('st, 'h, 'd, 'msg, 'a, 'b) facade \<Rightarrow> 'a slice \<Rightarrow> nat \<Rightarrow> nat \<Rightarrow> ('st, 'msg) world \<Rightarrow>
   (unit, ('st, 'msg) world) outcome" where
  "FollowerExecute_range_from f s i 0 w = Returns () w"
| "FollowerExecute_range_from f s i (Suc k) w =
    (let msg = load f (node w) (slice_array s) i in
     case msg_FollowerExecute f msg (node w) of
       (st, Some e) \<Rightarrow>
         Panics (Failed_to_build_state e)
           (w\<lparr>node := st, calls := calls w @ [Call_FollowerExecute msg]\<rparr>)
     | (st, None) \<Rightarrow>
         FollowerExecute_range_from f s (Suc i) k
           (w\<lparr>node := st, calls := calls w @ [Call_FollowerExecute msg]\<rparr>))"

definition FollowerExecute_range ::
  "('st, 'h, 'd, 'msg, 'a, 'b) facade \<Rightarrow> 'a slice \<Rightarrow> ('st, 'msg) world \<Rightarrow>
   (unit, ('st, 'msg) world) outcome" where
  "FollowerExecute_range f s w = FollowerExecute_range_from f s 0 (slice_len s) w"

text \<open>\<^verbatim>\<open>state.GetProcessList()[0]\<close> panics when the process list has no slot. The switch
  tries its cases in the order written.\<close>

definition FollowerExecute ::
  "('st, 'h, 'd, (('ts, 'h, 's) EOM, 'd, 'o) IMsg, 'a, 'b) facade \<Rightarrow>
   ('ts, 'h, 's) EOM \<Rightarrow>
   ('st, (('ts, 'h, 's) EOM, 'd, 'o) IMsg) world \<Rightarrow>
   (error option, ('st, (('ts, 'h, 's) EOM, 'd, 'o) IMsg) world) outcome" where
  "FollowerExecute f m w =
    (case GetProcessList f (node w) of
      [] \<Rightarrow> Panics Index_out_of_range w
    | slot # _ \<Rightarrow>
        (case FollowerExecute_range f slot w of
          Panics r w1 \<Rightarrow> Panics r w1
        | Returns _ w1 \<Rightarrow>
            let w2 = w1\<lparr>node := EndOfPeriod f (uint (Minute m)) (node w1),
                        calls := calls w1 @ [Call_EndOfPeriod (uint (Minute m))]\<rparr>;
                n = GetNetworkNumber f (node w2)
            in
              if n = NETWORK_MAIN f then Panics Not_implemented_yet w2
              else if n = NETWORK_TEST f then Panics Not_implemented_yet w2
              else if n = NETWORK_LOCAL f then
                (if Minute m = 9 then
                   let w3 = w2\<lparr>node := ProcessEndOfBlock f (node w2),
                               calls := calls w2 @ [Call_ProcessEndOfBlock]\<rparr>
                   in
                     if GetServerState f (node w3) = SERVER_MODE f then
                       Returns None (w3\<lparr>LeaderInMsgQueue := LeaderInMsgQueue w3 @ [EOM_msg m]\<rparr>)
                     else Returns None w3
                 else Returns None w2)
              else Panics (Not_implemented_yet_Network_Number n) w2))"

subsection \<open>Construction\<close>

text \<open>\<^verbatim>\<open>NewEOM\<close> takes the node state and does not use it; \<^verbatim>\<open>byte(minute)\<close> keeps the low
  eight bits.\<close>

definition NewEOM :: "('ts, 'h, 's) codec \<Rightarrow> 'st \<Rightarrow> int \<Rightarrow> ('ts, 'h, 's) EOM" where
  "NewEOM c state minute = (new_EOM c)\<lparr>Minute := word_of_int minute\<rparr>"

subsection \<open>A small node for examples\<close>

text \<open>A node state with a clock, a network number, a server state and a process list whose
  messages are numbers: message \<open>n\<close> fails when \<open>n\<close> is odd, and every collaborator advances
  the clock. The arrays of the process list are numbered, slot \<open>i\<close> is array \<open>i\<close>. A
  directory block is its key. The directory-block-signature message has a signature
  field, which \<open>Sign\<close> fills with the node's key bytes.\<close>

record 'h example_DBS = "'h DirectoryBlockSignature" +
  DBS_Signature :: "byte list option"

type_synonym example_msg =
  "((byte list, byte list, byte list) EOM, byte list example_DBS, nat) IMsg"

record example_state =
  clock :: nat
  network :: int
  server :: int
  key :: "byte list"
  process_list :: "example_msg list list"

definition example_facade ::
  "(example_state, byte list, byte list example_DBS, example_msg, nat, byte list) facade" where
  "example_facade =
    \<lparr>NETWORK_MAIN = 0, NETWORK_TEST = 1, NETWORK_LOCAL = 2, SERVER_MODE = 1,
     GetProcessList = (\<lambda>st.
       map (\<lambda>a. \<lparr>slice_array = a, slice_len = length (process_list st ! a)\<rparr>)
         [0..<length (process_list st)]),
     load = (\<lambda>st a i. process_list st ! a ! i),
     msg_FollowerExecute = (\<lambda>msg st.
       (st\<lparr>clock := clock st + 1\<rparr>,
        case msg of Other_msg n \<Rightarrow> if odd n then Some (Foreign_error ''odd'') else None
        | _ \<Rightarrow> None)),
     EndOfPeriod = (\<lambda>n st. st\<lparr>clock := clock st + 1\<rparr>),
     GetNetworkNumber = network,
     ProcessEndOfBlock = (\<lambda>st. st\<lparr>clock := clock st + 1\<rparr>),
     GetServerState = server,
     GetPreviousDirectoryBlock = (\<lambda>st. Some [7, 7, 7, 7]),
     GetKeyMR = Some,
     NewDirectoryBlockSignature = \<lparr>DirectoryBlockKeyMR = None, DBS_Signature = None\<rparr>,
     DirectoryBlockSignature_Sign = (\<lambda>st d. (d\<lparr>DBS_Signature := Some (key st)\<rparr>, None))\<rparr>"

definition example_world :: "int \<Rightarrow> int \<Rightarrow> nat list \<Rightarrow> (example_state, example_msg) world" where
  "example_world net srv slot =
    \<lparr>node = \<lparr>clock = 0, network = net, server = srv, key = [1, 2, 3],
       process_list = [map Other_msg slot]\<rparr>,
     NetworkOutMsgQueue = [], InMsgQueue = [], LeaderInMsgQueue = [], calls = []\<rparr>"

text \<open>The same node with a message 2 that, when executed, overwrites element 1 of slot 0
  with the message 3; the same node with a key that cannot sign; and the same node with
  no previous directory block.\<close>

definition overwriting_facade ::
  "(example_state, byte list, byte list example_DBS, example_msg, nat, byte list) facade" where
  "overwriting_facade =
    example_facade\<lparr>msg_FollowerExecute := (\<lambda>msg st.
      case msg of
        Other_msg n \<Rightarrow>
          if n = 2 then
            (st\<lparr>clock := clock st + 1,
                process_list := (process_list st)[0 := (process_list st ! 0)[1 := Other_msg 3]]\<rparr>,
             None)
          else (st\<lparr>clock := clock st + 1\<rparr>,
                if odd n then Some (Foreign_error ''odd'') else None)
      | _ \<Rightarrow> (st\<lparr>clock := clock st + 1\<rparr>, None))\<rparr>"

definition unsigning_facade ::
  "(example_state, byte list, byte list example_DBS, example_msg, nat, byte list) facade" where
  "unsigning_facade =
    example_facade\<lparr>DirectoryBlockSignature_Sign :=
      (\<lambda>st d. (d, Some (Foreign_error ''cannot sign'')))\<rparr>"

definition genesis_facade ::
  "(example_state, byte list, byte list example_DBS, example_msg, nat, byte list) facade" where
  "genesis_facade = example_facade\<lparr>GetPreviousDirectoryBlock := (\<lambda>st. None)\<rparr>"

section \<open>Properties of decoding\<close>

lemma UnmarshalBinaryData_body_success:
  assumes "UnmarshalBinaryData_body c m data = Returns u fr" and "err fr = None"
  shows "newData fr = data \<and> Minute (receiver fr) < 10"
  using assms unfolding UnmarshalBinaryData_body_def Let_def
  by (auto split: if_splits prod.splits result.splits list.splits option.splits
      simp: not_le)

lemma UnmarshalBinaryData_cases:
  "(\<exists>r fr. UnmarshalBinaryData_body c m data = Panics r fr \<and>
       UnmarshalBinaryData c m data = Returns () (fr\<lparr>err := Some (Error_unmarshalling r)\<rparr>)) \<or>
   (\<exists>fr. UnmarshalBinaryData_body c m data = Returns () fr \<and>
       UnmarshalBinaryData c m data = Returns () fr)"
  unfolding UnmarshalBinaryData_def
  by (cases "UnmarshalBinaryData_body c m data") auto

lemma UnmarshalBinaryData_success_body:
  assumes "UnmarshalBinaryData c m data = Returns u fr" and "err fr = None"
  shows "UnmarshalBinaryData_body c m data = Returns () fr"
  using assms UnmarshalBinaryData_cases [of c m data] by auto

lemma UnmarshalBinaryData_body_needs:
  assumes "UnmarshalBinaryData_body c m data = Returns u fr" and "err fr = None"
  shows "\<exists>ts nd1 h nd4. data \<noteq> [] \<and>
      Timestamp_UnmarshalBinaryData c (Timestamp m) (drop 1 data) = (ts, Ok nd1) \<and>
      5 \<le> length nd1 \<and> Hash_UnmarshalBinaryData c (drop 5 nd1) = Ok (h, nd4) \<and>
      (nd4 = [] \<or> (\<exists>sig nd5. Signature_UnmarshalBinaryData c nd4 = Ok (sig, nd5)))"
  using assms unfolding UnmarshalBinaryData_body_def Let_def
  by (auto split: if_splits prod.splits result.splits list.splits option.splits
      simp: not_le not_less)

lemma example_codec_fields:
  "EOM_MSG example_codec = 0"
  "Timestamp_zero example_codec = [0, 0]"
  "Timestamp_MarshalBinary example_codec = fixed_MarshalBinary 2"
  "Timestamp_UnmarshalBinaryData example_codec old data =
     (case fixed_UnmarshalBinaryData 2 data of
         Ok (ts, rest) \<Rightarrow> (ts, Ok rest)
       | Err e \<Rightarrow> (old, Err e)
       | Panic r \<Rightarrow> (old, Panic r))"
  "Hash_MarshalBinary example_codec = fixed_MarshalBinary 4"
  "Hash_UnmarshalBinaryData example_codec = fixed_UnmarshalBinaryData 4"
  "Signature_MarshalBinary example_codec = fixed_MarshalBinary 3"
  "Signature_UnmarshalBinaryData example_codec = fixed_UnmarshalBinaryData 3"
  "Sha example_codec data = take 4 (data @ [0, 0, 0, 0])"
  by (simp_all add: example_codec_def)

lemmas example_codec_simps =
  example_codec_fields fixed_MarshalBinary_def fixed_UnmarshalBinaryData_def new_EOM_def

lemmas UnmarshalBinaryData_simps =
  UnmarshalBinaryData_def UnmarshalBinaryData_body_def Let_def example_codec_simps

lemma Uint32_PutUint32: "Uint32 (PutUint32 v @ rest) = Some v"
  unfolding PutUint32_def
  apply simp
  apply (rule bit_word_eqI)
  apply (auto simp add: bit_simps)
  subgoal for n by (cases "24 \<le> n") auto
  done

lemma length_PutUint32: "length (PutUint32 v) = 4"
  by (simp add: PutUint32_def)

lemma Uint32_PutUint32_exact: "Uint32 (PutUint32 v) = Some v"
  using Uint32_PutUint32 [of v "[]"] by simp

lemma MarshalForSignature_Ok:
  assumes "MarshalForSignature c m = Ok p"
  obtains tb h hb where "Timestamp_MarshalBinary c (Timestamp m) = Ok tb"
    and "IdentityChainID m = Some h" and "Hash_MarshalBinary c h = Ok hb"
    and "p = word_of_int (EOM_MSG c) # tb @ Minute m # PutUint32 (DirectoryBlockHeight m) @ hb"
  using assms unfolding MarshalForSignature_def Type_def Let_def
  by (auto split: result.splits option.splits)

lemma MarshalForSignature_hash_update:
  "MarshalForSignature c (m\<lparr>hash := x\<rparr>) = MarshalForSignature c m"
  by (simp add: MarshalForSignature_def Type_def Let_def split: result.splits option.splits)

lemma decode_payload:
  assumes ts: "\<And>old rest. Timestamp_UnmarshalBinaryData c old (tb @ rest) = (t, Ok rest)"
    and hr: "\<And>rest. Hash_UnmarshalBinaryData c (hb @ rest) = Ok (h, rest)"
    and mn: "b < 10"
  shows "UnmarshalBinaryData_body c m0 (tag # tb @ b # PutUint32 v @ hb) =
     Returns () \<lparr>receiver = m0\<lparr>Timestamp := t, Minute := b, DirectoryBlockHeight := v,
        IdentityChainID := Some h\<rparr>, newData = tag # tb @ b # PutUint32 v @ hb, err = None\<rparr>"
proof -
  have 1: "Timestamp_UnmarshalBinaryData c (Timestamp m0) (tb @ b # PutUint32 v @ hb) =
      (t, Ok (b # PutUint32 v @ hb))"
    by (rule ts)
  have 2: "Hash_UnmarshalBinaryData c hb = Ok (h, [])"
    using hr [of "[]"] by simp
  show ?thesis
    unfolding UnmarshalBinaryData_body_def Let_def
    using mn by (simp add: 1 2 Uint32_PutUint32_exact length_PutUint32 not_le)
qed

lemma decode_signed:
  assumes ts: "\<And>old rest. Timestamp_UnmarshalBinaryData c old (tb @ rest) = (t, Ok rest)"
    and hr: "\<And>rest. Hash_UnmarshalBinaryData c (hb @ rest) = Ok (h, rest)"
    and sr: "Signature_UnmarshalBinaryData c sb = Ok (sig, [])"
    and ne: "sb \<noteq> []"
    and mn: "b < 10"
  shows "UnmarshalBinaryData_body c m0 (tag # tb @ b # PutUint32 v @ hb @ sb) =
     Returns () \<lparr>receiver = m0\<lparr>Timestamp := t, Minute := b, DirectoryBlockHeight := v,
        IdentityChainID := Some h, Signature := Some sig\<rparr>,
        newData = tag # tb @ b # PutUint32 v @ hb @ sb, err = None\<rparr>"
proof -
  have 1: "Timestamp_UnmarshalBinaryData c (Timestamp m0) (tb @ b # PutUint32 v @ hb @ sb) =
      (t, Ok (b # PutUint32 v @ hb @ sb))"
    by (rule ts)
  have 2: "Hash_UnmarshalBinaryData c (hb @ sb) = Ok (h, sb)"
    by (rule hr)
  show ?thesis
    unfolding UnmarshalBinaryData_body_def Let_def
    using mn ne by (simp add: 1 2 sr Uint32_PutUint32_exact length_PutUint32 not_le)
qed

text \<open>
  Claim C1 (round trip). Let \<open>m\<close> be a message that \<open>MarshalBinary\<close> encodes without error
  into \<open>bs\<close>, with minute in \<open>[0,9]\<close>, whose field values the imported codecs decode
  as they encoded them, and whose cached hash, if any, is the hash of its payload. Then
  \<open>UnmarshalBinaryData\<close>, run on \<open>bs\<close> with a new message as receiver, returns no error
  and leaves a message equal to \<open>m\<close> in timestamp, minute, directory block height, identity
  chain id and signature (present or absent), with an empty hash cache; and \<open>GetHash\<close> of
  the decoded message and of \<open>m\<close> both return, with the same hash.
\<close>

theorem roundtrip:
  assumes enc: "MarshalBinary c m = Ok bs"
    and mn: "Minute m \<le> 9"
    and rt: "codec_roundtrips_on c m"
    and cache: "\<forall>h. hash m = Some h \<longrightarrow> (\<exists>p. MarshalForSignature c m = Ok p \<and> h = Sha c p)"
  shows "UnmarshalBinaryData c (new_EOM c) bs =
           Returns () \<lparr>receiver = m\<lparr>hash := None\<rparr>, newData = bs, err = None\<rparr> \<and>
         (\<exists>h m1 m2. GetHash c (m\<lparr>hash := None\<rparr>) = Returns h m1 \<and> GetHash c m = Returns h m2)"
proof -
  from enc obtain p where p: "MarshalForSignature c m = Ok p"
    unfolding MarshalBinary_def by (auto split: result.splits)
  from p obtain tb h hb where tb: "Timestamp_MarshalBinary c (Timestamp m) = Ok tb"
    and h: "IdentityChainID m = Some h" and hb: "Hash_MarshalBinary c h = Ok hb"
    and p_eq: "p = word_of_int (EOM_MSG c) # tb @ Minute m # PutUint32 (DirectoryBlockHeight m) @ hb"
    by (rule MarshalForSignature_Ok)
  from rt tb have ts: "\<And>old rest. Timestamp_UnmarshalBinaryData c old (tb @ rest) = (Timestamp m, Ok rest)"
    unfolding codec_roundtrips_on_def by blast
  from rt h hb have hr: "\<And>rest. Hash_UnmarshalBinaryData c (hb @ rest) = Ok (h, rest)"
    unfolding codec_roundtrips_on_def by blast
  from mn have lt: "Minute m < 10"
    by (simp add: word_le_nat_alt word_less_nat_alt)
  have p': "MarshalForSignature c (m\<lparr>hash := None\<rparr>) = Ok p"
    using p by (simp add: MarshalForSignature_hash_update)
  have hashes: "\<exists>h m1 m2. GetHash c (m\<lparr>hash := None\<rparr>) = Returns h m1 \<and> GetHash c m = Returns h m2"
  proof (cases "hash m")
    case None
    then show ?thesis unfolding GetHash_def by (simp add: p p')
  next
    case (Some x)
    with cache p have "x = Sha c p" by auto
    with Some show ?thesis unfolding GetHash_def by (simp add: p')
  qed
  have dec: "UnmarshalBinaryData c (new_EOM c) bs =
           Returns () \<lparr>receiver = m\<lparr>hash := None\<rparr>, newData = bs, err = None\<rparr>"
  proof (cases "Signature m")
    case None
    with enc p have bs: "bs = p" unfolding MarshalBinary_def GetSignature_def by simp
    have "new_EOM c\<lparr>Timestamp := Timestamp m, Minute := Minute m,
        DirectoryBlockHeight := DirectoryBlockHeight m, IdentityChainID := Some h\<rparr> = m\<lparr>hash := None\<rparr>"
      using None h by (simp add: new_EOM_def)
    then show ?thesis
      unfolding UnmarshalBinaryData_def bs p_eq
      by (simp add: decode_payload [OF ts hr lt])
  next
    case (Some sig)
    with enc p obtain sb where sb: "Signature_MarshalBinary c sig = Ok sb" and bs: "bs = p @ sb"
      unfolding MarshalBinary_def GetSignature_def by (auto split: result.splits)
    from rt Some sb have ne: "sb \<noteq> []" and sr0: "\<And>rest. Signature_UnmarshalBinaryData c (sb @ rest) = Ok (sig, rest)"
      unfolding codec_roundtrips_on_def by blast+
    from sr0 [of "[]"] have sr: "Signature_UnmarshalBinaryData c sb = Ok (sig, [])" by simp
    have "new_EOM c\<lparr>Timestamp := Timestamp m, Minute := Minute m,
        DirectoryBlockHeight := DirectoryBlockHeight m, IdentityChainID := Some h,
        Signature := Some sig\<rparr> = m\<lparr>hash := None\<rparr>"
      using Some h by (simp add: new_EOM_def)
    then show ?thesis
      unfolding UnmarshalBinaryData_def bs p_eq
      by (simp add: decode_signed [OF ts hr sr ne lt])
  qed
  from dec hashes show ?thesis by simp
qed

theorem roundtrip_witness:
  "UnmarshalBinaryData example_codec (new_EOM example_codec)
      [0, 1, 2, 3, 0, 0, 1, 7, 9, 9, 9, 9, 5, 5, 5] =
     Returns () \<lparr>receiver = \<lparr>Timestamp = [1, 2], Minute = 3, DirectoryBlockHeight = 263,
         IdentityChainID = Some [9, 9, 9, 9], Signature = Some [5, 5, 5], hash = None\<rparr>,
       newData = [0, 1, 2, 3, 0, 0, 1, 7, 9, 9, 9, 9, 5, 5, 5], err = None\<rparr> \<and>
   (\<exists>h m1 m2.
      GetHash example_codec \<lparr>Timestamp = [1, 2], Minute = 3, DirectoryBlockHeight = 263,
         IdentityChainID = Some [9, 9, 9, 9], Signature = Some [5, 5, 5], hash = None\<rparr> =
        Returns h m1 \<and>
      GetHash example_codec \<lparr>Timestamp = [1, 2], Minute = 3, DirectoryBlockHeight = 263,
         IdentityChainID = Some [9, 9, 9, 9], Signature = Some [5, 5, 5],
         hash = Some [0, 1, 2, 3]\<rparr> = Returns h m2)"
proof -
  let ?m = "\<lparr>Timestamp = [1, 2], Minute = 3, DirectoryBlockHeight = 263,
         IdentityChainID = Some [9, 9, 9, 9], Signature = Some [5, 5, 5],
         hash = Some [0, 1, 2, 3]\<rparr> :: (byte list, byte list, byte list) EOM"
  have p: "MarshalForSignature example_codec ?m = Ok [0, 1, 2, 3, 0, 0, 1, 7, 9, 9, 9, 9]"
    by (simp add: MarshalForSignature_def Type_def PutUint32_def example_codec_simps)
  have enc: "MarshalBinary example_codec ?m = Ok [0, 1, 2, 3, 0, 0, 1, 7, 9, 9, 9, 9, 5, 5, 5]"
    by (simp add: MarshalBinary_def p GetSignature_def example_codec_simps)
  have mn: "Minute ?m \<le> 9"
    by simp
  have rt: "codec_roundtrips_on example_codec ?m"
    by (simp add: codec_roundtrips_on_def example_codec_simps split: if_splits)
  have cache: "\<forall>h. hash ?m = Some h \<longrightarrow>
      (\<exists>p. MarshalForSignature example_codec ?m = Ok p \<and> h = Sha example_codec p)"
    by (simp add: p example_codec_fields)
  from roundtrip [OF enc mn rt cache] show ?thesis
    by simp
qed

text \<open>
  Claim C6 (range rejection). When the byte that follows the timestamp is 10 or more,
  \<open>UnmarshalBinaryData\<close> returns the error "Minute number is out of range" and a nil slice
  (the receiver keeps the timestamp and the minute byte already stored in it). And
  whenever \<open>UnmarshalBinaryData\<close> returns no error, the minute of the decoded message is
  less than 10.
\<close>

theorem minute_range_rejection:
  "(\<forall>ts b rest. data \<noteq> [] \<and>
       Timestamp_UnmarshalBinaryData c (Timestamp m) (drop 1 data) = (ts, Ok (b # rest)) \<and>
       10 \<le> b \<longrightarrow>
       UnmarshalBinaryData c m data =
         Returns () \<lparr>receiver = m\<lparr>Timestamp := ts, Minute := b\<rparr>, newData = [],
           err = Some Minute_number_is_out_of_range\<rparr>) \<and>
   (\<forall>u fr. UnmarshalBinaryData c m data = Returns u fr \<and> err fr = None \<longrightarrow>
       Minute (receiver fr) < 10)"
proof (intro conjI allI impI)
  fix ts b rest
  assume "data \<noteq> [] \<and>
    Timestamp_UnmarshalBinaryData c (Timestamp m) (drop 1 data) = (ts, Ok (b # rest)) \<and> 10 \<le> b"
  then have "UnmarshalBinaryData_body c m data =
      Returns () \<lparr>receiver = m\<lparr>Timestamp := ts, Minute := b\<rparr>, newData = [],
           err = Some Minute_number_is_out_of_range\<rparr>"
    unfolding UnmarshalBinaryData_body_def Let_def
    by (cases data) simp_all
  then show "UnmarshalBinaryData c m data =
      Returns () \<lparr>receiver = m\<lparr>Timestamp := ts, Minute := b\<rparr>, newData = [],
           err = Some Minute_number_is_out_of_range\<rparr>"
    unfolding UnmarshalBinaryData_def by simp
next
  fix u fr
  assume a: "UnmarshalBinaryData c m data = Returns u fr \<and> err fr = None"
  then have "UnmarshalBinaryData_body c m data = Returns () fr"
    by (simp add: UnmarshalBinaryData_success_body)
  with a show "Minute (receiver fr) < 10"
    using UnmarshalBinaryData_body_success by blast
qed

theorem minute_range_rejection_witness:
  "UnmarshalBinaryData example_codec (new_EOM example_codec)
      [0, 1, 2, 10, 0, 0, 1, 7, 9, 9, 9, 9] =
     Returns () \<lparr>receiver = (new_EOM example_codec)\<lparr>Timestamp := [1, 2], Minute := 10\<rparr>,
       newData = [], err = Some Minute_number_is_out_of_range\<rparr> \<and>
   UnmarshalBinaryData example_codec (new_EOM example_codec)
      [0, 1, 2, 255, 0, 0, 1, 7, 9, 9, 9, 9] =
     Returns () \<lparr>receiver = (new_EOM example_codec)\<lparr>Timestamp := [1, 2], Minute := 255\<rparr>,
       newData = [], err = Some Minute_number_is_out_of_range\<rparr> \<and>
   Minute (receiver (\<lparr>receiver = \<lparr>Timestamp = [1, 2], Minute = 9, DirectoryBlockHeight = 263,
         IdentityChainID = Some [9, 9, 9, 9], Signature = None, hash = None\<rparr>,
       newData = [0, 1, 2, 9, 0, 0, 1, 7, 9, 9, 9, 9], err = None\<rparr>
       :: (byte list, byte list, byte list) frame)) < 10"
proof -
  let ?m = "new_EOM example_codec"
  let ?d10 = "[0, 1, 2, 10, 0, 0, 1, 7, 9, 9, 9, 9] :: byte list"
  let ?d255 = "[0, 1, 2, 255, 0, 0, 1, 7, 9, 9, 9, 9] :: byte list"
  let ?d9 = "[0, 1, 2, 9, 0, 0, 1, 7, 9, 9, 9, 9] :: byte list"
  let ?fr = "\<lparr>receiver = \<lparr>Timestamp = [1, 2], Minute = 9, DirectoryBlockHeight = 263,
         IdentityChainID = Some [9, 9, 9, 9], Signature = None, hash = None\<rparr>,
       newData = ?d9, err = None\<rparr> :: (byte list, byte list, byte list) frame"
  have h10: "?d10 \<noteq> [] \<and>
      Timestamp_UnmarshalBinaryData example_codec (Timestamp ?m) (drop 1 ?d10) =
        ([1, 2], Ok (10 # [0, 0, 1, 7, 9, 9, 9, 9])) \<and> (10 :: byte) \<le> 10"
    by (simp add: example_codec_simps)
  have h255: "?d255 \<noteq> [] \<and>
      Timestamp_UnmarshalBinaryData example_codec (Timestamp ?m) (drop 1 ?d255) =
        ([1, 2], Ok (255 # [0, 0, 1, 7, 9, 9, 9, 9])) \<and> (10 :: byte) \<le> 255"
    by (simp add: example_codec_simps)
  have h9: "UnmarshalBinaryData example_codec ?m ?d9 = Returns () ?fr \<and> err ?fr = None"
    by (simp add: UnmarshalBinaryData_simps)
  from minute_range_rejection [of ?d10 example_codec ?m] h10
  have r10: "UnmarshalBinaryData example_codec ?m ?d10 =
     Returns () \<lparr>receiver = ?m\<lparr>Timestamp := [1, 2], Minute := 10\<rparr>,
       newData = [], err = Some Minute_number_is_out_of_range\<rparr>"
    by blast
  from minute_range_rejection [of ?d255 example_codec ?m] h255
  have r255: "UnmarshalBinaryData example_codec ?m ?d255 =
     Returns () \<lparr>receiver = ?m\<lparr>Timestamp := [1, 2], Minute := 255\<rparr>,
       newData = [], err = Some Minute_number_is_out_of_range\<rparr>"
    by blast
  from minute_range_rejection [of ?d9 example_codec ?m] h9
  have r9: "Minute (receiver ?fr) < 10"
    by blast
  from r10 r255 r9 show ?thesis
    by blast
qed

text \<open>
  Claim C7 (decode totality). For every receiver and every input, \<open>UnmarshalBinaryData\<close>
  returns: it never ends in a panic. A panic of its body, such as an index or a slice out
  of bounds on a short input or a panic of an imported decoder, comes back as the error
  "Error unmarshalling", with the other results as they stood. And it returns no error
  only when the input is not empty, the timestamp decoder accepts what follows the tag, at
  least five bytes follow the timestamp, the hash decoder accepts what follows those, and
  the signature decoder accepts whatever follows the hash: an input cut short before the
  end of the identity hash returns an error.
\<close>

theorem UnmarshalBinaryData_total:
  "(\<exists>fr. UnmarshalBinaryData c m data = Returns () fr) \<and>
   (\<forall>r fr. UnmarshalBinaryData_body c m data = Panics r fr \<longrightarrow>
      UnmarshalBinaryData c m data = Returns () (fr\<lparr>err := Some (Error_unmarshalling r)\<rparr>)) \<and>
   (\<forall>fr. UnmarshalBinaryData c m data = Returns () fr \<and> err fr = None \<longrightarrow>
      (\<exists>ts nd1 h nd4. data \<noteq> [] \<and>
         Timestamp_UnmarshalBinaryData c (Timestamp m) (drop 1 data) = (ts, Ok nd1) \<and>
         5 \<le> length nd1 \<and> Hash_UnmarshalBinaryData c (drop 5 nd1) = Ok (h, nd4) \<and>
         (nd4 = [] \<or> (\<exists>sig nd5. Signature_UnmarshalBinaryData c nd4 = Ok (sig, nd5)))))"
proof (intro conjI allI impI)
  show "\<exists>fr. UnmarshalBinaryData c m data = Returns () fr"
    using UnmarshalBinaryData_cases [of c m data] by auto
next
  fix r fr
  assume "UnmarshalBinaryData_body c m data = Panics r fr"
  then show "UnmarshalBinaryData c m data = Returns () (fr\<lparr>err := Some (Error_unmarshalling r)\<rparr>)"
    unfolding UnmarshalBinaryData_def by simp
next
  fix fr
  assume a: "UnmarshalBinaryData c m data = Returns () fr \<and> err fr = None"
  then have "UnmarshalBinaryData_body c m data = Returns () fr"
    by (simp add: UnmarshalBinaryData_success_body)
  with a show "\<exists>ts nd1 h nd4. data \<noteq> [] \<and>
         Timestamp_UnmarshalBinaryData c (Timestamp m) (drop 1 data) = (ts, Ok nd1) \<and>
         5 \<le> length nd1 \<and> Hash_UnmarshalBinaryData c (drop 5 nd1) = Ok (h, nd4) \<and>
         (nd4 = [] \<or> (\<exists>sig nd5. Signature_UnmarshalBinaryData c nd4 = Ok (sig, nd5)))"
    using UnmarshalBinaryData_body_needs by blast
qed

theorem UnmarshalBinaryData_total_witness:
  "UnmarshalBinaryData example_codec (new_EOM example_codec) [] =
     Returns () \<lparr>receiver = new_EOM example_codec, newData = [],
       err = Some (Error_unmarshalling Slice_bounds_out_of_range)\<rparr> \<and>
   UnmarshalBinaryData example_codec (new_EOM example_codec) [0, 1, 2, 3, 0, 0] =
     Returns () \<lparr>receiver = (new_EOM example_codec)\<lparr>Timestamp := [1, 2], Minute := 3\<rparr>,
       newData = [0, 0], err = Some (Error_unmarshalling Slice_bounds_out_of_range)\<rparr> \<and>
   (\<exists>ts nd1 h nd4.
      Timestamp_UnmarshalBinaryData example_codec (Timestamp (new_EOM example_codec))
        (drop 1 [0, 1, 2, 3, 0, 0, 1, 7, 9, 9, 9, 9]) = (ts, Ok nd1) \<and>
      5 \<le> length nd1 \<and> Hash_UnmarshalBinaryData example_codec (drop 5 nd1) = Ok (h, nd4))"
proof -
  let ?m = "new_EOM example_codec"
  let ?d = "[0, 1, 2, 3, 0, 0, 1, 7, 9, 9, 9, 9] :: byte list"
  let ?fr = "\<lparr>receiver = \<lparr>Timestamp = [1, 2], Minute = 3, DirectoryBlockHeight = 263,
         IdentityChainID = Some [9, 9, 9, 9], Signature = None, hash = None\<rparr>,
       newData = ?d, err = None\<rparr> :: (byte list, byte list, byte list) frame"
  have b0: "UnmarshalBinaryData_body example_codec ?m [] =
      Panics Slice_bounds_out_of_range \<lparr>receiver = ?m, newData = [], err = None\<rparr>"
    by (simp add: UnmarshalBinaryData_body_def)
  have b6: "UnmarshalBinaryData_body example_codec ?m [0, 1, 2, 3, 0, 0] =
      Panics Slice_bounds_out_of_range
        \<lparr>receiver = ?m\<lparr>Timestamp := [1, 2], Minute := 3\<rparr>, newData = [0, 0], err = None\<rparr>"
    by (simp add: UnmarshalBinaryData_body_def Let_def example_codec_simps)
  have ok: "UnmarshalBinaryData example_codec ?m ?d = Returns () ?fr \<and> err ?fr = None"
    by (simp add: UnmarshalBinaryData_simps)
  from UnmarshalBinaryData_total [of example_codec ?m "[]"] b0
  have r0: "UnmarshalBinaryData example_codec ?m [] =
      Returns () (\<lparr>receiver = ?m, newData = [], err = None\<rparr>
        \<lparr>err := Some (Error_unmarshalling Slice_bounds_out_of_range)\<rparr>)"
    by blast
  from UnmarshalBinaryData_total [of example_codec ?m "[0, 1, 2, 3, 0, 0]"] b6
  have r6: "UnmarshalBinaryData example_codec ?m [0, 1, 2, 3, 0, 0] =
      Returns () (\<lparr>receiver = ?m\<lparr>Timestamp := [1, 2], Minute := 3\<rparr>, newData = [0, 0],
        err = None\<rparr>\<lparr>err := Some (Error_unmarshalling Slice_bounds_out_of_range)\<rparr>)"
    by blast
  from UnmarshalBinaryData_total [of example_codec ?m ?d] ok
  have r12: "\<exists>ts nd1 h nd4. ?d \<noteq> [] \<and>
      Timestamp_UnmarshalBinaryData example_codec (Timestamp ?m) (drop 1 ?d) = (ts, Ok nd1) \<and>
      5 \<le> length nd1 \<and> Hash_UnmarshalBinaryData example_codec (drop 5 nd1) = Ok (h, nd4) \<and>
      (nd4 = [] \<or> (\<exists>sig nd5. Signature_UnmarshalBinaryData example_codec nd4 = Ok (sig, nd5)))"
    by blast
  from r0 r6 r12 show ?thesis
    by auto
qed

text \<open>
  Claim C10 (the slice a successful decode returns). When \<open>UnmarshalBinaryData\<close> returns no
  error, the slice it returns is its whole input, not the bytes left after the message.
\<close>

theorem UnmarshalBinaryData_returns_whole_input:
  assumes "UnmarshalBinaryData c m data = Returns u fr" and "err fr = None"
  shows "newData fr = data"
  using UnmarshalBinaryData_body_success [OF UnmarshalBinaryData_success_body [OF assms] assms(2)]
  by simp

theorem UnmarshalBinaryData_returns_whole_input_witness:
  "UnmarshalBinaryData example_codec (new_EOM example_codec)
      [0, 1, 2, 3, 0, 0, 1, 7, 9, 9, 9, 9, 5, 5, 5, 170, 187] =
     Returns () \<lparr>receiver = \<lparr>Timestamp = [1, 2], Minute = 3, DirectoryBlockHeight = 263,
         IdentityChainID = Some [9, 9, 9, 9], Signature = Some [5, 5, 5], hash = None\<rparr>,
       newData = [0, 1, 2, 3, 0, 0, 1, 7, 9, 9, 9, 9, 5, 5, 5, 170, 187], err = None\<rparr> \<and>
   newData (\<lparr>receiver = \<lparr>Timestamp = [1, 2], Minute = 3, DirectoryBlockHeight = 263,
         IdentityChainID = Some [9, 9, 9, 9], Signature = Some [5, 5, 5], hash = None\<rparr>,
       newData = [0, 1, 2, 3, 0, 0, 1, 7, 9, 9, 9, 9, 5, 5, 5, 170, 187], err = None\<rparr>
       :: (byte list, byte list, byte list) frame) =
     [0, 1, 2, 3, 0, 0, 1, 7, 9, 9, 9, 9, 5, 5, 5, 170, 187]"
proof -
  let ?d = "[0, 1, 2, 3, 0, 0, 1, 7, 9, 9, 9, 9, 5, 5, 5, 170, 187] :: byte list"
  let ?fr = "\<lparr>receiver = \<lparr>Timestamp = [1, 2], Minute = 3, DirectoryBlockHeight = 263,
         IdentityChainID = Some [9, 9, 9, 9], Signature = Some [5, 5, 5], hash = None\<rparr>,
       newData = ?d, err = None\<rparr> :: (byte list, byte list, byte list) frame"
  have dec: "UnmarshalBinaryData example_codec (new_EOM example_codec) ?d = Returns () ?fr"
    by (simp add: UnmarshalBinaryData_simps)
  have ok: "err ?fr = None"
    by simp
  from UnmarshalBinaryData_returns_whole_input [OF dec ok] dec show ?thesis
    by blast
qed

subsection \<open>Further behaviour of the decoder\<close>

text \<open>The encoding of a signed message cut at every length below its own, decoded into a
  new message: every cut returns an error but the one right after the identity hash,
  which decodes as the unsigned message.\<close>

lemma UnmarshalBinaryData_prefix_of_signed:
  "MarshalBinary example_codec
      \<lparr>Timestamp = [1, 2], Minute = 3, DirectoryBlockHeight = 263,
       IdentityChainID = Some [9, 9, 9, 9], Signature = Some [5, 5, 5], hash = None\<rparr> =
     Ok [0, 1, 2, 3, 0, 0, 1, 7, 9, 9, 9, 9, 5, 5, 5] \<and>
   UnmarshalBinaryData example_codec (new_EOM example_codec)
      (take 12 [0, 1, 2, 3, 0, 0, 1, 7, 9, 9, 9, 9, 5, 5, 5]) =
     Returns () \<lparr>receiver = \<lparr>Timestamp = [1, 2], Minute = 3, DirectoryBlockHeight = 263,
         IdentityChainID = Some [9, 9, 9, 9], Signature = None, hash = None\<rparr>,
       newData = [0, 1, 2, 3, 0, 0, 1, 7, 9, 9, 9, 9], err = None\<rparr>"
  by (simp add: MarshalBinary_def MarshalForSignature_def Type_def GetSignature_def
      PutUint32_def UnmarshalBinaryData_simps)

lemma UnmarshalBinaryData_prefixes_of_signed:
  "map (\<lambda>n. err (state_of (UnmarshalBinaryData example_codec (new_EOM example_codec)
      (take n [0, 1, 2, 3, 0, 0, 1, 7, 9, 9, 9, 9, 5, 5, 5])))) [0, 1, 2, 3, 4, 5, 6, 7, 8, 9, 10, 11, 12, 13, 14] =
   [Some (Error_unmarshalling Slice_bounds_out_of_range),
    Some (Foreign_error ''not enough data''),
    Some (Foreign_error ''not enough data''),
    Some (Error_unmarshalling Index_out_of_range),
    Some (Error_unmarshalling Slice_bounds_out_of_range),
    Some (Error_unmarshalling Slice_bounds_out_of_range),
    Some (Error_unmarshalling Slice_bounds_out_of_range),
    Some (Error_unmarshalling Slice_bounds_out_of_range),
    Some (Foreign_error ''not enough data''),
    Some (Foreign_error ''not enough data''),
    Some (Foreign_error ''not enough data''),
    Some (Foreign_error ''not enough data''),
    None,
    Some (Foreign_error ''not enough data''),
    Some (Foreign_error ''not enough data'')]"
  by (simp add: UnmarshalBinaryData_simps)

text \<open>\<open>UnmarshalBinaryData\<close> assigns the signature only when bytes follow the identity hash,
  and never the cached hash: a receiver that held a signature and a cached hash keeps
  both when an unsigned message is decoded into it.\<close>

lemma UnmarshalBinaryData_keeps_old_signature:
  "UnmarshalBinaryData example_codec
      ((new_EOM example_codec)\<lparr>Signature := Some [8, 8, 8], hash := Some [6, 6, 6, 6]\<rparr>)
      [0, 1, 2, 3, 0, 0, 1, 7, 9, 9, 9, 9] =
     Returns () \<lparr>receiver = \<lparr>Timestamp = [1, 2], Minute = 3, DirectoryBlockHeight = 263,
         IdentityChainID = Some [9, 9, 9, 9], Signature = Some [8, 8, 8],
         hash = Some [6, 6, 6, 6]\<rparr>,
       newData = [0, 1, 2, 3, 0, 0, 1, 7, 9, 9, 9, 9], err = None\<rparr>"
  by (simp add: UnmarshalBinaryData_simps)

section \<open>Properties of execution\<close>



lemma range_from_world:
  "count_list (calls (state_of (FollowerExecute_range_from f s i k w))) Call_ProcessEndOfBlock =
     count_list (calls w) Call_ProcessEndOfBlock \<and>
   NetworkOutMsgQueue (state_of (FollowerExecute_range_from f s i k w)) = NetworkOutMsgQueue w \<and>
   InMsgQueue (state_of (FollowerExecute_range_from f s i k w)) = InMsgQueue w \<and>
   LeaderInMsgQueue (state_of (FollowerExecute_range_from f s i k w)) = LeaderInMsgQueue w"
proof (induction k arbitrary: i w)
  case 0
  show ?case by simp
next
  case (Suc k)
  obtain st e where step:
    "msg_FollowerExecute f (load f (node w) (slice_array s) i) (node w) = (st, e)"
    by (cases "msg_FollowerExecute f (load f (node w) (slice_array s) i) (node w)")
  show ?case
  proof (cases e)
    case None
    with step Suc.IH [of "Suc i" "w\<lparr>node := st, calls := calls w @
        [Call_FollowerExecute (load f (node w) (slice_array s) i)]\<rparr>"]
    show ?thesis by (simp add: Let_def)
  next
    case (Some a)
    with step show ?thesis by (simp add: Let_def)
  qed
qed

lemma range_world:
  "count_list (calls (state_of (FollowerExecute_range f slot w))) Call_ProcessEndOfBlock =
     count_list (calls w) Call_ProcessEndOfBlock \<and>
   LeaderInMsgQueue (state_of (FollowerExecute_range f slot w)) = LeaderInMsgQueue w"
  unfolding FollowerExecute_range_def using range_from_world [of f slot 0 "slice_len slot" w]
  by simp



text \<open>When no execution of a message overwrites an element of the slot, every element is
  read as it was on entry, and the loop executes the messages the slot held then.\<close>

lemma range_from_load:
  assumes "\<forall>msg st j. load f (fst (msg_FollowerExecute f msg st)) a j = load f st a j"
    and "FollowerExecute_range_from f s i k w = Returns u wk"
  shows "load f (node wk) a j = load f (node w) a j"
  using assms(2)
proof (induction k arbitrary: i w)
  case 0
  then show ?case by simp
next
  case (Suc k)
  obtain st e where step:
    "msg_FollowerExecute f (load f (node w) (slice_array s) i) (node w) = (st, e)"
    by (cases "msg_FollowerExecute f (load f (node w) (slice_array s) i) (node w)")
  with Suc.prems have e: "e = None"
    by (cases e) (auto simp: Let_def)
  with step Suc.prems have "FollowerExecute_range_from f s (Suc i) k
      (w\<lparr>node := st, calls := calls w @
        [Call_FollowerExecute (load f (node w) (slice_array s) i)]\<rparr>) = Returns u wk"
    by (simp add: Let_def)
  from Suc.IH [OF this] have "load f (node wk) a j = load f st a j"
    by simp
  moreover from assms(1) step have "load f st a j = load f (node w) a j"
    by (metis fst_conv)
  ultimately show ?case by simp
qed

lemma reads_when_not_overwritten:
  assumes "\<forall>j < length msgs. load f (node w) (slice_array slot) j = msgs ! j"
    and "\<forall>msg st j.
      load f (fst (msg_FollowerExecute f msg st)) (slice_array slot) j =
      load f st (slice_array slot) j"
  shows "\<forall>j wj. j < length msgs \<and>
        FollowerExecute_range_from f slot 0 j w = Returns () wj \<longrightarrow>
        load f (node wj) (slice_array slot) j = msgs ! j"
  using assms range_from_load [of f "slice_array slot" slot 0 _ w]
  by metis

lemma FollowerExecute_after_range:
  assumes "GetProcessList f (node w) = slot # others"
    and "FollowerExecute_range f slot w = Returns u w1"
    and "w2 = w1\<lparr>node := EndOfPeriod f (uint (Minute m)) (node w1),
                  calls := calls w1 @ [Call_EndOfPeriod (uint (Minute m))]\<rparr>"
  shows "FollowerExecute f m w =
     (if GetNetworkNumber f (node w2) = NETWORK_MAIN f then Panics Not_implemented_yet w2
      else if GetNetworkNumber f (node w2) = NETWORK_TEST f then Panics Not_implemented_yet w2
      else if GetNetworkNumber f (node w2) = NETWORK_LOCAL f then
        (if Minute m = 9 then
           (if GetServerState f (ProcessEndOfBlock f (node w2)) = SERVER_MODE f then
              Returns None (w2\<lparr>node := ProcessEndOfBlock f (node w2),
                 calls := calls w2 @ [Call_ProcessEndOfBlock],
                 LeaderInMsgQueue := LeaderInMsgQueue w2 @ [EOM_msg m]\<rparr>)
            else Returns None (w2\<lparr>node := ProcessEndOfBlock f (node w2),
                 calls := calls w2 @ [Call_ProcessEndOfBlock]\<rparr>))
         else Returns None w2)
      else Panics (Not_implemented_yet_Network_Number (GetNetworkNumber f (node w2))) w2)"
  using assms unfolding FollowerExecute_def Let_def by simp

lemma FollowerExecute_range_Panics:
  assumes "GetProcessList f (node w) = slot # others"
    and "FollowerExecute_range f slot w = Panics r w1"
  shows "FollowerExecute f m w = Panics r w1"
  using assms unfolding FollowerExecute_def by simp

lemma example_facade_fields:
  "NETWORK_MAIN example_facade = 0"
  "NETWORK_TEST example_facade = 1"
  "NETWORK_LOCAL example_facade = 2"
  "SERVER_MODE example_facade = 1"
  "GetProcessList example_facade st =
     map (\<lambda>a. \<lparr>slice_array = a, slice_len = length (process_list st ! a)\<rparr>)
       [0..<length (process_list st)]"
  "load example_facade st a i = process_list st ! a ! i"
  "msg_FollowerExecute example_facade msg st =
     (st\<lparr>clock := clock st + 1\<rparr>,
      case msg of Other_msg n \<Rightarrow> if odd n then Some (Foreign_error ''odd'') else None
      | _ \<Rightarrow> None)"
  "EndOfPeriod example_facade n st = st\<lparr>clock := clock st + 1\<rparr>"
  "GetNetworkNumber example_facade = network"
  "ProcessEndOfBlock example_facade st = st\<lparr>clock := clock st + 1\<rparr>"
  "GetServerState example_facade = server"
  "GetPreviousDirectoryBlock example_facade st = Some [7, 7, 7, 7]"
  "GetKeyMR example_facade = Some"
  "NewDirectoryBlockSignature example_facade =
     \<lparr>DirectoryBlockKeyMR = None, DBS_Signature = None\<rparr>"
  "DirectoryBlockSignature_Sign example_facade st d = (d\<lparr>DBS_Signature := Some (key st)\<rparr>, None)"
  by (simp_all add: example_facade_def)

lemma range_from_numeral:
  "FollowerExecute_range_from f s i (numeral n) w =
    (let msg = load f (node w) (slice_array s) i in
     case msg_FollowerExecute f msg (node w) of
       (st, Some e) \<Rightarrow>
         Panics (Failed_to_build_state e)
           (w\<lparr>node := st, calls := calls w @ [Call_FollowerExecute msg]\<rparr>)
     | (st, None) \<Rightarrow>
         FollowerExecute_range_from f s (Suc i) (pred_numeral n)
           (w\<lparr>node := st, calls := calls w @ [Call_FollowerExecute msg]\<rparr>))"
  by (simp add: numeral_eq_Suc)

lemmas example_facade_simps =
  example_facade_fields example_world_def FollowerExecute_range_def range_from_numeral Let_def



text \<open>The loop executes what it finds: when the execution of the first message overwrites
  the second element of the slot, it is the new message that is executed next.\<close>

lemma overwriting_facade_fields:
  "GetProcessList overwriting_facade = GetProcessList example_facade"
  "load overwriting_facade = load example_facade"
  "msg_FollowerExecute overwriting_facade (Other_msg n) st =
     (if n = 2 then
        (st\<lparr>clock := clock st + 1,
            process_list := (process_list st)[0 := (process_list st ! 0)[1 := Other_msg 3]]\<rparr>,
         None)
      else (st\<lparr>clock := clock st + 1\<rparr>,
            if odd n then Some (Foreign_error ''odd'') else None))"
  by (simp_all add: overwriting_facade_def)

lemma FollowerExecute_reads_when_reached:
  "FollowerExecute overwriting_facade ((new_EOM example_codec)\<lparr>Minute := 3\<rparr>)
       (example_world 2 1 [2, 4]) =
     Panics (Failed_to_build_state (Foreign_error ''odd''))
       \<lparr>node = \<lparr>clock = 2, network = 2, server = 1, key = [1, 2, 3],
          process_list = [[Other_msg 2, Other_msg 3]]\<rparr>,
        NetworkOutMsgQueue = [], InMsgQueue = [], LeaderInMsgQueue = [],
        calls = [Call_FollowerExecute (Other_msg 2), Call_FollowerExecute (Other_msg 3)]\<rparr>"
  by (simp add: FollowerExecute_def overwriting_facade_fields example_facade_simps)

text \<open>
  Claim C3 (last-minute trigger), with the condition under which the last step is reached.
  When the minute is 9 and the execution reaches the end of the method (the replay
  returned and the network number read after \<open>EndOfPeriod\<close> is the local one),
  \<open>FollowerExecute\<close> returns nil, has called \<open>ProcessEndOfBlock\<close> exactly once, and has
  then sent this same message on the leader-input queue if the server state read after
  that call is \<open>SERVER_MODE\<close>, and sent nothing on it otherwise. When the minute is not 9,
  whatever else happens, \<open>FollowerExecute\<close> calls \<open>ProcessEndOfBlock\<close> not once and leaves
  the leader-input queue as it was; the same holds, for every minute, when
  \<open>FollowerExecute\<close> panics.
\<close>

theorem last_minute_trigger:
  "(\<forall>slot others w1 w2 w3.
      Minute m = 9 \<and> GetProcessList f (node w) = slot # others \<and>
      FollowerExecute_range f slot w = Returns () w1 \<and>
      w2 = w1\<lparr>node := EndOfPeriod f (uint (Minute m)) (node w1),
               calls := calls w1 @ [Call_EndOfPeriod (uint (Minute m))]\<rparr> \<and>
      GetNetworkNumber f (node w2) = NETWORK_LOCAL f \<and>
      NETWORK_LOCAL f \<noteq> NETWORK_MAIN f \<and> NETWORK_LOCAL f \<noteq> NETWORK_TEST f \<and>
      w3 = w2\<lparr>node := ProcessEndOfBlock f (node w2),
               calls := calls w2 @ [Call_ProcessEndOfBlock]\<rparr> \<longrightarrow>
      FollowerExecute f m w =
        Returns None
          (if GetServerState f (node w3) = SERVER_MODE f
           then w3\<lparr>LeaderInMsgQueue := LeaderInMsgQueue w @ [EOM_msg m]\<rparr> else w3) \<and>
      count_list (calls (state_of (FollowerExecute f m w))) Call_ProcessEndOfBlock =
        count_list (calls w) Call_ProcessEndOfBlock + 1 \<and>
      LeaderInMsgQueue (state_of (FollowerExecute f m w)) =
        LeaderInMsgQueue w @
          (if GetServerState f (node w3) = SERVER_MODE f then [EOM_msg m] else [])) \<and>
   (Minute m \<noteq> 9 \<longrightarrow>
      count_list (calls (state_of (FollowerExecute f m w))) Call_ProcessEndOfBlock =
        count_list (calls w) Call_ProcessEndOfBlock \<and>
      LeaderInMsgQueue (state_of (FollowerExecute f m w)) = LeaderInMsgQueue w) \<and>
   (\<forall>r w'. FollowerExecute f m w = Panics r w' \<longrightarrow>
      count_list (calls w') Call_ProcessEndOfBlock = count_list (calls w) Call_ProcessEndOfBlock \<and>
      LeaderInMsgQueue w' = LeaderInMsgQueue w)"
proof (intro conjI allI impI)
  fix slot others w1 w2 w3
  assume a: "Minute m = 9 \<and> GetProcessList f (node w) = slot # others \<and>
      FollowerExecute_range f slot w = Returns () w1 \<and>
      w2 = w1\<lparr>node := EndOfPeriod f (uint (Minute m)) (node w1),
               calls := calls w1 @ [Call_EndOfPeriod (uint (Minute m))]\<rparr> \<and>
      GetNetworkNumber f (node w2) = NETWORK_LOCAL f \<and>
      NETWORK_LOCAL f \<noteq> NETWORK_MAIN f \<and> NETWORK_LOCAL f \<noteq> NETWORK_TEST f \<and>
      w3 = w2\<lparr>node := ProcessEndOfBlock f (node w2),
               calls := calls w2 @ [Call_ProcessEndOfBlock]\<rparr>"
  then have slot: "GetProcessList f (node w) = slot # others"
    and r: "FollowerExecute_range f slot w = Returns () w1"
    and w2: "w2 = w1\<lparr>node := EndOfPeriod f (uint (Minute m)) (node w1),
               calls := calls w1 @ [Call_EndOfPeriod (uint (Minute m))]\<rparr>"
    and w3: "w3 = w2\<lparr>node := ProcessEndOfBlock f (node w2),
               calls := calls w2 @ [Call_ProcessEndOfBlock]\<rparr>"
    and m9: "Minute m = 9"
    and net: "GetNetworkNumber f (node w2) = NETWORK_LOCAL f"
      "NETWORK_LOCAL f \<noteq> NETWORK_MAIN f" "NETWORK_LOCAL f \<noteq> NETWORK_TEST f"
    by blast+
  from range_world [of f slot w] r have q: "LeaderInMsgQueue w2 = LeaderInMsgQueue w"
    and c: "count_list (calls w2) Call_ProcessEndOfBlock =
      count_list (calls w) Call_ProcessEndOfBlock"
    by (simp_all add: w2)
  show res: "FollowerExecute f m w =
        Returns None
          (if GetServerState f (node w3) = SERVER_MODE f
           then w3\<lparr>LeaderInMsgQueue := LeaderInMsgQueue w @ [EOM_msg m]\<rparr> else w3)"
    unfolding FollowerExecute_after_range [OF slot r w2] w3 using m9 net q
    by simp
  show "count_list (calls (state_of (FollowerExecute f m w))) Call_ProcessEndOfBlock =
        count_list (calls w) Call_ProcessEndOfBlock + 1"
    unfolding res using c
    by (simp add: w3)
  show "LeaderInMsgQueue (state_of (FollowerExecute f m w)) =
        LeaderInMsgQueue w @
          (if GetServerState f (node w3) = SERVER_MODE f then [EOM_msg m] else [])"
    unfolding res using q by (simp add: w3)
next
  assume ne: "Minute m \<noteq> 9"
  have "count_list (calls (state_of (FollowerExecute f m w))) Call_ProcessEndOfBlock =
        count_list (calls w) Call_ProcessEndOfBlock \<and>
      LeaderInMsgQueue (state_of (FollowerExecute f m w)) = LeaderInMsgQueue w"
  proof (cases "GetProcessList f (node w)")
    case Nil
    then show ?thesis by (simp add: FollowerExecute_def)
  next
    case (Cons slot others)
    show ?thesis
    proof (cases "FollowerExecute_range f slot w")
      case (Panics r w1)
      with range_world [of f slot w] FollowerExecute_range_Panics [OF Cons Panics, of m]
      show ?thesis by simp
    next
      case (Returns u w1)
      with range_world [of f slot w] ne show ?thesis
        unfolding FollowerExecute_after_range [OF Cons Returns refl]
        by (simp add: count_list_append)
    qed
  qed
  then show "count_list (calls (state_of (FollowerExecute f m w))) Call_ProcessEndOfBlock =
        count_list (calls w) Call_ProcessEndOfBlock"
    and "LeaderInMsgQueue (state_of (FollowerExecute f m w)) = LeaderInMsgQueue w"
    by simp_all
next
  fix r w'
  assume p: "FollowerExecute f m w = Panics r w'"
  have "count_list (calls w') Call_ProcessEndOfBlock = count_list (calls w) Call_ProcessEndOfBlock \<and>
      LeaderInMsgQueue w' = LeaderInMsgQueue w"
  proof (cases "GetProcessList f (node w)")
    case Nil
    with p show ?thesis by (simp add: FollowerExecute_def)
  next
    case (Cons slot others)
    show ?thesis
    proof (cases "FollowerExecute_range f slot w")
      case (Panics r1 w1)
      with range_world [of f slot w] FollowerExecute_range_Panics [OF Cons Panics, of m] p
      show ?thesis by simp
    next
      case (Returns u w1)
      with range_world [of f slot w] p show ?thesis
        unfolding FollowerExecute_after_range [OF Cons Returns refl]
        by (auto split: if_splits)
    qed
  qed
  then show "count_list (calls w') Call_ProcessEndOfBlock = count_list (calls w) Call_ProcessEndOfBlock"
    and "LeaderInMsgQueue w' = LeaderInMsgQueue w"
    by simp_all
qed

theorem last_minute_trigger_witness:
  "FollowerExecute example_facade ((new_EOM example_codec)\<lparr>Minute := 9\<rparr>)
       (example_world 2 1 [2, 4]) =
     Returns None
       \<lparr>node = \<lparr>clock = 4, network = 2, server = 1, key = [1, 2, 3],
          process_list = [[Other_msg 2, Other_msg 4]]\<rparr>,
        NetworkOutMsgQueue = [], InMsgQueue = [],
        LeaderInMsgQueue = [EOM_msg ((new_EOM example_codec)\<lparr>Minute := 9\<rparr>)],
        calls = [Call_FollowerExecute (Other_msg 2), Call_FollowerExecute (Other_msg 4),
          Call_EndOfPeriod 9, Call_ProcessEndOfBlock]\<rparr> \<and>
   count_list (calls (state_of (FollowerExecute example_facade
       ((new_EOM example_codec)\<lparr>Minute := 9\<rparr>) (example_world 2 0 [2, 4]))))
     Call_ProcessEndOfBlock = 1 \<and>
   LeaderInMsgQueue (state_of (FollowerExecute example_facade
       ((new_EOM example_codec)\<lparr>Minute := 9\<rparr>) (example_world 2 0 [2, 4]))) = [] \<and>
   count_list (calls (state_of (FollowerExecute example_facade
       ((new_EOM example_codec)\<lparr>Minute := 3\<rparr>) (example_world 2 1 [2, 4]))))
     Call_ProcessEndOfBlock = 0 \<and>
   LeaderInMsgQueue (state_of (FollowerExecute example_facade
       ((new_EOM example_codec)\<lparr>Minute := 3\<rparr>) (example_world 2 1 [2, 4]))) = [] \<and>
   FollowerExecute example_facade ((new_EOM example_codec)\<lparr>Minute := 9\<rparr>)
       (example_world 0 1 [2, 4]) =
     Panics Not_implemented_yet
       \<lparr>node = \<lparr>clock = 3, network = 0, server = 1, key = [1, 2, 3],
          process_list = [[Other_msg 2, Other_msg 4]]\<rparr>,
        NetworkOutMsgQueue = [], InMsgQueue = [], LeaderInMsgQueue = [],
        calls = [Call_FollowerExecute (Other_msg 2), Call_FollowerExecute (Other_msg 4),
          Call_EndOfPeriod 9]\<rparr> \<and>
   count_list [Call_FollowerExecute (Other_msg 2), Call_FollowerExecute (Other_msg 4),
       Call_EndOfPeriod 9 :: example_msg call] Call_ProcessEndOfBlock = 0"
proof -
  let ?m9 = "(new_EOM example_codec)\<lparr>Minute := 9\<rparr>"
  let ?m3 = "(new_EOM example_codec)\<lparr>Minute := 3\<rparr>"
  let ?slot = "\<lparr>slice_array = 0, slice_len = 2\<rparr> :: nat slice"
  let ?w1 = "\<lambda>srv. \<lparr>node = \<lparr>clock = 2, network = 2, server = srv, key = [1, 2, 3],
          process_list = [[Other_msg 2, Other_msg 4]]\<rparr>,
        NetworkOutMsgQueue = [], InMsgQueue = [], LeaderInMsgQueue = [],
        calls = [Call_FollowerExecute (Other_msg 2), Call_FollowerExecute (Other_msg 4)]\<rparr>
        :: (example_state, example_msg) world"
  let ?w2 = "\<lambda>srv. (?w1 srv)\<lparr>node := EndOfPeriod example_facade (uint (Minute ?m9)) (node (?w1 srv)),
        calls := calls (?w1 srv) @ [Call_EndOfPeriod (uint (Minute ?m9))]\<rparr>"
  let ?w3 = "\<lambda>srv. (?w2 srv)\<lparr>node := ProcessEndOfBlock example_facade (node (?w2 srv)),
        calls := calls (?w2 srv) @ [Call_ProcessEndOfBlock]\<rparr>"
  have reach: "Minute ?m9 = 9 \<and>
      GetProcessList example_facade (node (example_world 2 srv [2, 4])) = ?slot # [] \<and>
      FollowerExecute_range example_facade ?slot (example_world 2 srv [2, 4]) =
        Returns () (?w1 srv) \<and>
      ?w2 srv = ?w2 srv \<and>
      GetNetworkNumber example_facade (node (?w2 srv)) = NETWORK_LOCAL example_facade \<and>
      NETWORK_LOCAL example_facade \<noteq> NETWORK_MAIN example_facade \<and>
      NETWORK_LOCAL example_facade \<noteq> NETWORK_TEST example_facade \<and>
      ?w3 srv = ?w3 srv" for srv
    by (simp add: example_facade_simps)
  have m3: "Minute ?m3 \<noteq> 9"
    by simp
  from last_minute_trigger [of ?m9 example_facade "example_world 2 1 [2, 4]"] reach [of 1]
  have a: "FollowerExecute example_facade ?m9 (example_world 2 1 [2, 4]) =
      Returns None
        (if GetServerState example_facade (node (?w3 1)) = SERVER_MODE example_facade
         then (?w3 1)\<lparr>LeaderInMsgQueue :=
           LeaderInMsgQueue (example_world 2 1 [2, 4]) @ [EOM_msg ?m9]\<rparr>
         else ?w3 1)"
    by blast
  from last_minute_trigger [of ?m9 example_facade "example_world 2 0 [2, 4]"] reach [of 0]
  have b: "count_list (calls (state_of (FollowerExecute example_facade ?m9
        (example_world 2 0 [2, 4])))) Call_ProcessEndOfBlock =
      count_list (calls (example_world 2 0 [2, 4])) Call_ProcessEndOfBlock + 1 \<and>
    LeaderInMsgQueue (state_of (FollowerExecute example_facade ?m9 (example_world 2 0 [2, 4]))) =
      LeaderInMsgQueue (example_world 2 0 [2, 4]) @
        (if GetServerState example_facade (node (?w3 0)) = SERVER_MODE example_facade
         then [EOM_msg ?m9] else [])"
    by blast
  from last_minute_trigger [of ?m3 example_facade "example_world 2 1 [2, 4]"] m3
  have c: "count_list (calls (state_of (FollowerExecute example_facade ?m3
        (example_world 2 1 [2, 4])))) Call_ProcessEndOfBlock =
      count_list (calls (example_world 2 1 [2, 4])) Call_ProcessEndOfBlock \<and>
    LeaderInMsgQueue (state_of (FollowerExecute example_facade ?m3 (example_world 2 1 [2, 4]))) =
      LeaderInMsgQueue (example_world 2 1 [2, 4])"
    by blast
  let ?p = "\<lparr>node = \<lparr>clock = 3, network = 0, server = 1, key = [1, 2, 3],
          process_list = [[Other_msg 2, Other_msg 4]]\<rparr>,
        NetworkOutMsgQueue = [], InMsgQueue = [], LeaderInMsgQueue = [],
        calls = [Call_FollowerExecute (Other_msg 2), Call_FollowerExecute (Other_msg 4),
          Call_EndOfPeriod 9]\<rparr> :: (example_state, example_msg) world"
  have main: "FollowerExecute example_facade ?m9 (example_world 0 1 [2, 4]) =
      Panics Not_implemented_yet ?p"
    by (simp add: FollowerExecute_def Let_def example_facade_simps)
  from last_minute_trigger [of ?m9 example_facade "example_world 0 1 [2, 4]"] main
  have d: "count_list (calls ?p) Call_ProcessEndOfBlock =
      count_list (calls (example_world 0 1 [2, 4])) Call_ProcessEndOfBlock \<and>
    LeaderInMsgQueue ?p = LeaderInMsgQueue (example_world 0 1 [2, 4])"
    by blast
  from a b c d main show ?thesis
    by (simp add: example_facade_simps)
qed

text \<open>
  Without that condition the first half of claim C3 does not hold: with minute 9 under the
  main network profile, \<open>FollowerExecute\<close> panics in the switch, before the last step, and
  \<open>ProcessEndOfBlock\<close> is not called.
\<close>

theorem last_minute_trigger_counterexample:
  "Minute ((new_EOM example_codec)\<lparr>Minute := 9\<rparr>) = 9 \<and>
   GetNetworkNumber example_facade (node (example_world 0 1 [])) = NETWORK_MAIN example_facade \<and>
   FollowerExecute example_facade ((new_EOM example_codec)\<lparr>Minute := 9\<rparr>)
       (example_world 0 1 []) =
     Panics Not_implemented_yet
       \<lparr>node = \<lparr>clock = 1, network = 0, server = 1, key = [1, 2, 3], process_list = [[]]\<rparr>,
        NetworkOutMsgQueue = [], InMsgQueue = [], LeaderInMsgQueue = [],
        calls = [Call_EndOfPeriod 9]\<rparr> \<and>
   count_list (calls (state_of (FollowerExecute example_facade
       ((new_EOM example_codec)\<lparr>Minute := 9\<rparr>) (example_world 0 1 []))))
     Call_ProcessEndOfBlock = 0"
  by (simp add: FollowerExecute_def Let_def example_facade_simps)

lemma FollowerExecute_Returns:
  assumes "FollowerExecute f m w = Returns x w'"
  shows "\<exists>slot others w1.
      GetProcessList f (node w) = slot # others \<and>
      FollowerExecute_range f slot w = Returns () w1 \<and>
      GetNetworkNumber f (EndOfPeriod f (uint (Minute m)) (node w1)) = NETWORK_LOCAL f"
proof (cases "GetProcessList f (node w)")
  case Nil
  with assms show ?thesis by (simp add: FollowerExecute_def)
next
  case (Cons slot others)
  show ?thesis
  proof (cases "FollowerExecute_range f slot w")
    case (Panics r w1)
    from FollowerExecute_range_Panics [OF Cons Panics, of m] assms show ?thesis by simp
  next
    case (Returns u w1)
    from assms have "GetNetworkNumber f (EndOfPeriod f (uint (Minute m)) (node w1)) = NETWORK_LOCAL f"
      unfolding FollowerExecute_after_range [OF Cons Returns refl]
      by (simp split: if_splits)
    with Cons Returns show ?thesis by simp
  qed
qed

text \<open>
  Claim C4 (network profile). Let the replay of slot 0 have returned, and let \<open>w2\<close> be the
  world after the call of \<open>EndOfPeriod\<close>. If the network number read there is the local
  one, the switch does nothing: for a minute other than 9 \<open>FollowerExecute\<close> returns nil
  with the world \<open>w2\<close> unchanged, and for minute 9 it returns nil and its next call after
  \<open>EndOfPeriod\<close> is \<open>ProcessEndOfBlock\<close>. If it is the main or the test one,
  \<open>FollowerExecute\<close> panics with "Not implemented yet"; if it is any other number, it
  panics with "Not implemented yet: Network Number n". And whenever \<open>FollowerExecute\<close>
  returns at all, the network number it read was the local one: under no other profile
  does it go on.
\<close>

theorem network_profile:
  "(\<forall>slot others w1 w2.
      GetProcessList f (node w) = slot # others \<and>
      FollowerExecute_range f slot w = Returns () w1 \<and>
      w2 = w1\<lparr>node := EndOfPeriod f (uint (Minute m)) (node w1),
               calls := calls w1 @ [Call_EndOfPeriod (uint (Minute m))]\<rparr> \<longrightarrow>
      (GetNetworkNumber f (node w2) = NETWORK_LOCAL f \<and>
       NETWORK_LOCAL f \<noteq> NETWORK_MAIN f \<and> NETWORK_LOCAL f \<noteq> NETWORK_TEST f \<longrightarrow>
         (Minute m \<noteq> 9 \<longrightarrow> FollowerExecute f m w = Returns None w2) \<and>
         (Minute m = 9 \<longrightarrow>
            (\<exists>w'. FollowerExecute f m w = Returns None w' \<and>
               take (Suc (length (calls w2))) (calls w') =
                 calls w2 @ [Call_ProcessEndOfBlock]))) \<and>
      (GetNetworkNumber f (node w2) = NETWORK_MAIN f \<or>
       GetNetworkNumber f (node w2) = NETWORK_TEST f \<longrightarrow>
         FollowerExecute f m w = Panics Not_implemented_yet w2) \<and>
      (GetNetworkNumber f (node w2) \<noteq> NETWORK_MAIN f \<and>
       GetNetworkNumber f (node w2) \<noteq> NETWORK_TEST f \<and>
       GetNetworkNumber f (node w2) \<noteq> NETWORK_LOCAL f \<longrightarrow>
         FollowerExecute f m w =
           Panics (Not_implemented_yet_Network_Number (GetNetworkNumber f (node w2))) w2)) \<and>
   (\<forall>x w'. FollowerExecute f m w = Returns x w' \<longrightarrow>
      (\<exists>slot others w1.
         GetProcessList f (node w) = slot # others \<and>
         FollowerExecute_range f slot w = Returns () w1 \<and>
         GetNetworkNumber f (EndOfPeriod f (uint (Minute m)) (node w1)) = NETWORK_LOCAL f))"
proof (intro conjI allI impI)
  fix slot others w1 w2
  assume a: "GetProcessList f (node w) = slot # others \<and>
      FollowerExecute_range f slot w = Returns () w1 \<and>
      w2 = w1\<lparr>node := EndOfPeriod f (uint (Minute m)) (node w1),
               calls := calls w1 @ [Call_EndOfPeriod (uint (Minute m))]\<rparr>"
  then have eq: "FollowerExecute f m w =
     (if GetNetworkNumber f (node w2) = NETWORK_MAIN f then Panics Not_implemented_yet w2
      else if GetNetworkNumber f (node w2) = NETWORK_TEST f then Panics Not_implemented_yet w2
      else if GetNetworkNumber f (node w2) = NETWORK_LOCAL f then
        (if Minute m = 9 then
           (if GetServerState f (ProcessEndOfBlock f (node w2)) = SERVER_MODE f then
              Returns None (w2\<lparr>node := ProcessEndOfBlock f (node w2),
                 calls := calls w2 @ [Call_ProcessEndOfBlock],
                 LeaderInMsgQueue := LeaderInMsgQueue w2 @ [EOM_msg m]\<rparr>)
            else Returns None (w2\<lparr>node := ProcessEndOfBlock f (node w2),
                 calls := calls w2 @ [Call_ProcessEndOfBlock]\<rparr>))
         else Returns None w2)
      else Panics (Not_implemented_yet_Network_Number (GetNetworkNumber f (node w2))) w2)"
    using FollowerExecute_after_range by blast
  {
    assume "GetNetworkNumber f (node w2) = NETWORK_LOCAL f \<and>
       NETWORK_LOCAL f \<noteq> NETWORK_MAIN f \<and> NETWORK_LOCAL f \<noteq> NETWORK_TEST f"
    then have loc: "GetNetworkNumber f (node w2) = NETWORK_LOCAL f"
      "NETWORK_LOCAL f \<noteq> NETWORK_MAIN f" "NETWORK_LOCAL f \<noteq> NETWORK_TEST f"
      by blast+
    {
      assume "Minute m \<noteq> 9"
      then show "FollowerExecute f m w = Returns None w2"
        unfolding eq using loc by simp
    }
    {
      assume "Minute m = 9"
      then show "\<exists>w'. FollowerExecute f m w = Returns None w' \<and>
               take (Suc (length (calls w2))) (calls w') =
                 calls w2 @ [Call_ProcessEndOfBlock]"
        unfolding eq using loc by simp
    }
  }
  {
    assume "GetNetworkNumber f (node w2) = NETWORK_MAIN f \<or>
       GetNetworkNumber f (node w2) = NETWORK_TEST f"
    then show "FollowerExecute f m w = Panics Not_implemented_yet w2"
      unfolding eq by auto
  }
  {
    assume "GetNetworkNumber f (node w2) \<noteq> NETWORK_MAIN f \<and>
       GetNetworkNumber f (node w2) \<noteq> NETWORK_TEST f \<and>
       GetNetworkNumber f (node w2) \<noteq> NETWORK_LOCAL f"
    then show "FollowerExecute f m w =
           Panics (Not_implemented_yet_Network_Number (GetNetworkNumber f (node w2))) w2"
      unfolding eq by simp
  }
next
  fix x w'
  assume "FollowerExecute f m w = Returns x w'"
  then show "\<exists>slot others w1.
         GetProcessList f (node w) = slot # others \<and>
         FollowerExecute_range f slot w = Returns () w1 \<and>
         GetNetworkNumber f (EndOfPeriod f (uint (Minute m)) (node w1)) = NETWORK_LOCAL f"
    by (rule FollowerExecute_Returns)
qed

theorem network_profile_witness:
  "FollowerExecute example_facade ((new_EOM example_codec)\<lparr>Minute := 3\<rparr>)
       (example_world 2 1 [2]) =
     Returns None
       \<lparr>node = \<lparr>clock = 2, network = 2, server = 1, key = [1, 2, 3],
          process_list = [[Other_msg 2]]\<rparr>,
        NetworkOutMsgQueue = [], InMsgQueue = [], LeaderInMsgQueue = [],
        calls = [Call_FollowerExecute (Other_msg 2), Call_EndOfPeriod 3]\<rparr> \<and>
   FollowerExecute example_facade ((new_EOM example_codec)\<lparr>Minute := 3\<rparr>)
       (example_world 0 1 [2]) =
     Panics Not_implemented_yet
       \<lparr>node = \<lparr>clock = 2, network = 0, server = 1, key = [1, 2, 3],
          process_list = [[Other_msg 2]]\<rparr>,
        NetworkOutMsgQueue = [], InMsgQueue = [], LeaderInMsgQueue = [],
        calls = [Call_FollowerExecute (Other_msg 2), Call_EndOfPeriod 3]\<rparr> \<and>
   FollowerExecute example_facade ((new_EOM example_codec)\<lparr>Minute := 3\<rparr>)
       (example_world 1 1 [2]) =
     Panics Not_implemented_yet
       \<lparr>node = \<lparr>clock = 2, network = 1, server = 1, key = [1, 2, 3],
          process_list = [[Other_msg 2]]\<rparr>,
        NetworkOutMsgQueue = [], InMsgQueue = [], LeaderInMsgQueue = [],
        calls = [Call_FollowerExecute (Other_msg 2), Call_EndOfPeriod 3]\<rparr> \<and>
   FollowerExecute example_facade ((new_EOM example_codec)\<lparr>Minute := 3\<rparr>)
       (example_world 7 1 [2]) =
     Panics (Not_implemented_yet_Network_Number 7)
       \<lparr>node = \<lparr>clock = 2, network = 7, server = 1, key = [1, 2, 3],
          process_list = [[Other_msg 2]]\<rparr>,
        NetworkOutMsgQueue = [], InMsgQueue = [], LeaderInMsgQueue = [],
        calls = [Call_FollowerExecute (Other_msg 2), Call_EndOfPeriod 3]\<rparr>"
proof -
  let ?m = "(new_EOM example_codec)\<lparr>Minute := 3\<rparr>"
  let ?slot = "\<lparr>slice_array = 0, slice_len = 1\<rparr> :: nat slice"
  let ?w1 = "\<lambda>net. \<lparr>node = \<lparr>clock = 1, network = net, server = 1, key = [1, 2, 3],
          process_list = [[Other_msg 2]]\<rparr>,
        NetworkOutMsgQueue = [], InMsgQueue = [], LeaderInMsgQueue = [],
        calls = [Call_FollowerExecute (Other_msg 2)]\<rparr> :: (example_state, example_msg) world"
  let ?w2 = "\<lambda>net. (?w1 net)\<lparr>node := EndOfPeriod example_facade (uint (Minute ?m)) (node (?w1 net)),
        calls := calls (?w1 net) @ [Call_EndOfPeriod (uint (Minute ?m))]\<rparr>"
  have slot: "GetProcessList example_facade (node (example_world net 1 [2])) = ?slot # []" for net
    by (simp add: example_facade_simps)
  have range: "FollowerExecute_range example_facade ?slot (example_world net 1 [2]) =
      Returns () (?w1 net)" for net
    by (simp add: example_facade_simps)
  have local: "GetNetworkNumber example_facade (node (?w2 2)) = NETWORK_LOCAL example_facade \<and>
      NETWORK_LOCAL example_facade \<noteq> NETWORK_MAIN example_facade \<and>
      NETWORK_LOCAL example_facade \<noteq> NETWORK_TEST example_facade"
    and main: "GetNetworkNumber example_facade (node (?w2 0)) = NETWORK_MAIN example_facade"
    and test: "GetNetworkNumber example_facade (node (?w2 1)) = NETWORK_TEST example_facade"
    and other: "GetNetworkNumber example_facade (node (?w2 7)) \<noteq> NETWORK_MAIN example_facade \<and>
      GetNetworkNumber example_facade (node (?w2 7)) \<noteq> NETWORK_TEST example_facade \<and>
      GetNetworkNumber example_facade (node (?w2 7)) \<noteq> NETWORK_LOCAL example_facade"
    and m3: "Minute ?m \<noteq> 9"
    by (simp_all add: example_facade_simps)
  from network_profile [of example_facade "example_world 2 1 [2]" ?m] slot [of 2] range [of 2]
    local m3
  have a: "FollowerExecute example_facade ?m (example_world 2 1 [2]) = Returns None (?w2 2)"
    by blast
  from network_profile [of example_facade "example_world 0 1 [2]" ?m] slot [of 0] range [of 0]
    main
  have b: "FollowerExecute example_facade ?m (example_world 0 1 [2]) =
      Panics Not_implemented_yet (?w2 0)"
    by blast
  from network_profile [of example_facade "example_world 1 1 [2]" ?m] slot [of 1] range [of 1]
    test
  have c: "FollowerExecute example_facade ?m (example_world 1 1 [2]) =
      Panics Not_implemented_yet (?w2 1)"
    by blast
  from network_profile [of example_facade "example_world 7 1 [2]" ?m] slot [of 7] range [of 7]
    other
  have d: "FollowerExecute example_facade ?m (example_world 7 1 [2]) =
      Panics (Not_implemented_yet_Network_Number
        (GetNetworkNumber example_facade (node (?w2 7)))) (?w2 7)"
    by blast
  from a b c d show ?thesis
    by (simp add: example_facade_simps)
qed

text \<open>What \<open>LeaderExecute\<close> does in general: with a previous directory block it returns nil
  and has sent on both queues the message that \<open>Sign\<close> left, whatever \<open>Sign\<close> returned;
  with none it panics and has sent nothing.\<close>

lemma LeaderExecute_Some:
  assumes "GetPreviousDirectoryBlock f (node w) = Some block"
  shows "LeaderExecute f m w =
     Returns None
       (w\<lparr>calls := calls w @ [Call_Sign],
          NetworkOutMsgQueue := NetworkOutMsgQueue w @
            [DirectoryBlockSignature_msg
              (fst (DirectoryBlockSignature_Sign f (node w)
                ((NewDirectoryBlockSignature f)\<lparr>DirectoryBlockKeyMR := GetKeyMR f block\<rparr>)))],
          InMsgQueue := InMsgQueue w @
            [DirectoryBlockSignature_msg
              (fst (DirectoryBlockSignature_Sign f (node w)
                ((NewDirectoryBlockSignature f)\<lparr>DirectoryBlockKeyMR := GetKeyMR f block\<rparr>)))]\<rparr>)"
  using assms by (simp add: LeaderExecute_def Let_def)

lemma LeaderExecute_None:
  assumes "GetPreviousDirectoryBlock f (node w) = None"
  shows "LeaderExecute f m w = Panics Nil_dereference w"
  using assms by (simp add: LeaderExecute_def)

lemma LeaderExecute_example:
  "LeaderExecute example_facade (new_EOM example_codec) (example_world 2 1 []) =
     Returns None
       \<lparr>node = \<lparr>clock = 0, network = 2, server = 1, key = [1, 2, 3], process_list = [[]]\<rparr>,
        NetworkOutMsgQueue = [DirectoryBlockSignature_msg
          \<lparr>DirectoryBlockKeyMR = Some [7, 7, 7, 7], DBS_Signature = Some [1, 2, 3]\<rparr>],
        InMsgQueue = [DirectoryBlockSignature_msg
          \<lparr>DirectoryBlockKeyMR = Some [7, 7, 7, 7], DBS_Signature = Some [1, 2, 3]\<rparr>],
        LeaderInMsgQueue = [], calls = [Call_Sign]\<rparr>"
  by (simp add: LeaderExecute_def example_facade_simps)

text \<open>
  Claim C5 (self-delivery). The claim does not hold for every node state. \<open>LeaderExecute\<close>
  drops the error \<open>Sign\<close> returns: on a node whose key cannot sign, \<open>Sign\<close> returns an error
  and attaches no signature, and \<open>LeaderExecute\<close> still sends the message, unsigned, on
  the outbound network queue and on the node's own inbound queue, and returns nil. And on
  a node with no previous directory block it panics on the nil block before it signs or
  sends anything.
\<close>

theorem LeaderExecute_sends_unsigned:
  "DirectoryBlockSignature_Sign unsigning_facade (node (example_world 2 1 []))
       \<lparr>DirectoryBlockKeyMR = Some [7, 7, 7, 7], DBS_Signature = None\<rparr> =
     (\<lparr>DirectoryBlockKeyMR = Some [7, 7, 7, 7], DBS_Signature = None\<rparr>,
      Some (Foreign_error ''cannot sign'')) \<and>
   LeaderExecute unsigning_facade (new_EOM example_codec) (example_world 2 1 []) =
     Returns None
       \<lparr>node = \<lparr>clock = 0, network = 2, server = 1, key = [1, 2, 3], process_list = [[]]\<rparr>,
        NetworkOutMsgQueue = [DirectoryBlockSignature_msg
          \<lparr>DirectoryBlockKeyMR = Some [7, 7, 7, 7], DBS_Signature = None\<rparr>],
        InMsgQueue = [DirectoryBlockSignature_msg
          \<lparr>DirectoryBlockKeyMR = Some [7, 7, 7, 7], DBS_Signature = None\<rparr>],
        LeaderInMsgQueue = [], calls = [Call_Sign]\<rparr> \<and>
   LeaderExecute genesis_facade (new_EOM example_codec) (example_world 2 1 []) =
     Panics Nil_dereference (example_world 2 1 [])"
  by (simp add: LeaderExecute_def Let_def unsigning_facade_def genesis_facade_def
      example_facade_def example_world_def)

text \<open>
  Claim C8 (degenerate role dispatch). For every message and node state, \<open>Validate\<close>
  returns 1, \<open>Leader\<close> returns false and \<open>Follower\<close> returns true.
\<close>

theorem role_dispatch:
  "Validate m st = 1 \<and> Leader m st = False \<and> Follower m st = True"
  by (simp add: Validate_def Leader_def Follower_def)

text \<open>
  Claim C9 (timestamp at construction). \<open>NewEOM\<close> builds a message whose minute is the low
  eight bits of its argument and whose other fields, the timestamp among them, have their
  zero values: it does not read the node state, so the timestamp is not the creation time.
\<close>

theorem NewEOM_timestamp_not_set:
  "NewEOM c state minute =
     \<lparr>Timestamp = Timestamp_zero c, Minute = word_of_int minute, DirectoryBlockHeight = 0,
      IdentityChainID = None, Signature = None, hash = None\<rparr>"
  by (simp add: NewEOM_def new_EOM_def)

text \<open>The minute \<open>NewEOM\<close> stores is not checked against the range \<open>[0,10)\<close>.\<close>

lemma NewEOM_minute_not_checked:
  "Minute (NewEOM c state 10) = 10 \<and> Minute (NewEOM c state 266) = 10 \<and>
   Minute (NewEOM c state (- 1)) = 255"
  by (simp add: NewEOM_def)

text \<open>\<open>GetHash\<close> changes nothing of the message but the cache, and returns the cached hash
  from then on.\<close>

lemma GetHash_keeps_fields:
  assumes "GetHash c m = Returns h m'"
  shows "m' = m\<lparr>hash := Some h\<rparr> \<and> GetHash c m' = Returns h m'"
  using assms unfolding GetHash_def
  by (auto split: option.splits result.splits)

end
